theory Spec2Isabelle
  imports Main "HOL-Library.AList"
begin

section \<open>Browser storage\<close>

text \<open>
  \<open>localStorage\<close> and \<open>sessionStorage\<close> are ordered key/value stores of strings:
  \<open>key(i)\<close> is the key of the i-th entry, \<open>getItem\<close> answers \<open>null\<close> (here \<open>None\<close>) for a
  key that is not stored, \<open>setItem\<close> overwrites in place or appends, \<open>removeItem\<close>
  deletes.
\<close>

type_synonym storage = "(string \<times> string) list"

definition getItem :: "storage \<Rightarrow> string \<Rightarrow> string option" where
  "getItem st k = map_of st k"

definition setItem :: "storage \<Rightarrow> string \<Rightarrow> string \<Rightarrow> storage" where
  "setItem st k v = AList.update k v st"

definition removeItem :: "storage \<Rightarrow> string \<Rightarrow> storage" where
  "removeItem st k = AList.delete k st"

section \<open>The guided tour (TourContext)\<close>

text \<open>
  One entry of \<open>tourSteps\<close>. The \<open>title\<close> and \<open>description\<close> fields are display
  text that no operation reads; they are left out.
\<close>

record tour_step =
  step_id :: string
  page :: string
  highlight :: "string option"
  position :: string

definition tourSteps :: "tour_step list" where
  "tourSteps =
    [\<lparr>step_id = ''welcome'', page = ''/'', highlight = None, position = ''center''\<rparr>,
     \<lparr>step_id = ''demo-mode'', page = ''/'', highlight = Some ''demo-toggle'',
      position = ''bottom''\<rparr>,
     \<lparr>step_id = ''dashboard-alerts-scroll'', page = ''/'',
      highlight = Some ''alerts-section'', position = ''top''\<rparr>,
     \<lparr>step_id = ''risk-analysis-button'', page = ''/'',
      highlight = Some ''alerts-section'', position = ''top''\<rparr>,
     \<lparr>step_id = ''risk-analysis-modal'', page = ''/'',
      highlight = Some ''alerts-section'', position = ''top''\<rparr>,
     \<lparr>step_id = ''show-map-button'', page = ''/'',
      highlight = Some ''alerts-section'', position = ''top''\<rparr>,
     \<lparr>step_id = ''dashboard-map'', page = ''/'', highlight = Some ''dashboard-map'',
      position = ''top''\<rparr>,
     \<lparr>step_id = ''emergency-resources'', page = ''/emergency-resources'',
      highlight = Some ''resources-section'', position = ''top''\<rparr>,
     \<lparr>step_id = ''chat-page'', page = ''/chat'', highlight = Some ''chat-interface'',
      position = ''top''\<rparr>,
     \<lparr>step_id = ''forecast-page'', page = ''/forecast'',
      highlight = Some ''forecast-section'', position = ''top''\<rparr>,
     \<lparr>step_id = ''hurricane-simulation'', page = ''/hurricane-simulation'',
      highlight = Some ''simulation-section'', position = ''top''\<rparr>,
     \<lparr>step_id = ''complete'', page = ''/hurricane-simulation'', highlight = None,
      position = ''center''\<rparr>]"

text \<open>
  The three \<open>useState\<close> cells. \<open>currentStep\<close> is a JavaScript number, modelled as an
  integer so that nothing about its sign is assumed.
\<close>

record tour_cells =
  isTourActive :: bool
  currentStep :: int
  hasCompletedTour :: bool

text \<open>
  The provider between two renders. The operations are closures created by the last
  render: what they read of the cells, as the guards of \<open>nextStep\<close> and
  \<open>previousStep\<close> read \<open>currentStep\<close>, is the value that render saw
  (\<open>rendered\<close>). What they set is queued and applied in order by the next render:
  \<open>pending\<close> holds the cells with every queued update applied, \<open>setCurrentStep(0)\<close>
  replacing the value and \<open>setCurrentStep(prev => prev + 1)\<close> acting on the pending
  one. \<open>localStorage\<close> is written at once.
\<close>

record tour_state =
  rendered :: tour_cells
  pending :: tour_cells
  tour_ls :: storage

definition tour_init :: "storage \<Rightarrow> tour_state" where
  "tour_init ls =
     \<lparr>rendered = \<lparr>isTourActive = False, currentStep = 0,
                   hasCompletedTour = (getItem ls ''tourCompleted'' = Some ''true'')\<rparr>,
      pending = \<lparr>isTourActive = False, currentStep = 0,
                  hasCompletedTour = (getItem ls ''tourCompleted'' = Some ''true'')\<rparr>,
      tour_ls = ls\<rparr>"

definition startTour :: "tour_state \<Rightarrow> tour_state" where
  "startTour s = s\<lparr>pending := (pending s)\<lparr>isTourActive := True, currentStep := 0\<rparr>\<rparr>"

definition completeTour :: "tour_state \<Rightarrow> tour_state" where
  "completeTour s =
     s\<lparr>pending := (pending s)\<lparr>isTourActive := False, currentStep := 0,
                               hasCompletedTour := True\<rparr>,
       tour_ls := setItem (tour_ls s) ''tourCompleted'' ''true''\<rparr>"

definition nextStep :: "tour_state \<Rightarrow> tour_state" where
  "nextStep s =
     (if currentStep (rendered s) < int (length tourSteps) - 1
      then s\<lparr>pending := (pending s)\<lparr>currentStep := currentStep (pending s) + 1\<rparr>\<rparr>
      else completeTour s)"

definition previousStep :: "tour_state \<Rightarrow> tour_state" where
  "previousStep s =
     (if currentStep (rendered s) > 0
      then s\<lparr>pending := (pending s)\<lparr>currentStep := currentStep (pending s) - 1\<rparr>\<rparr>
      else s)"

definition skipTour :: "tour_state \<Rightarrow> tour_state" where
  "skipTour s = s\<lparr>pending := (pending s)\<lparr>isTourActive := False, currentStep := 0\<rparr>\<rparr>"

definition resetTour :: "tour_state \<Rightarrow> tour_state" where
  "resetTour s =
     s\<lparr>pending := (pending s)\<lparr>hasCompletedTour := False\<rparr>,
       tour_ls := removeItem (tour_ls s) ''tourCompleted''\<rparr>"

text \<open>A render applies the queued updates and creates the operations anew.\<close>

definition render :: "tour_state \<Rightarrow> tour_state" where
  "render s = s\<lparr>rendered := pending s\<rparr>"

text \<open>\<open>tourSteps[currentStep]\<close>: \<open>undefined\<close> (\<open>None\<close>) outside the array.\<close>

definition getCurrentStep :: "tour_state \<Rightarrow> tour_step option" where
  "getCurrentStep s =
     (if 0 \<le> currentStep (rendered s) \<and> currentStep (rendered s) < int (length tourSteps)
      then Some (tourSteps ! nat (currentStep (rendered s))) else None)"

datatype tour_op = StartTour | NextStep | PreviousStep | SkipTour | CompleteTour | ResetTour

fun tour_apply :: "tour_state \<Rightarrow> tour_op \<Rightarrow> tour_state" where
  "tour_apply s StartTour = startTour s"
| "tour_apply s NextStep = nextStep s"
| "tour_apply s PreviousStep = previousStep s"
| "tour_apply s SkipTour = skipTour s"
| "tour_apply s CompleteTour = completeTour s"
| "tour_apply s ResetTour = resetTour s"

text \<open>
  What happens to the provider: an operation is called, or the provider renders.
  Any number of operations may be called between two renders.
\<close>

datatype tour_event = Call tour_op | Render

fun tour_handle :: "tour_state \<Rightarrow> tour_event \<Rightarrow> tour_state" where
  "tour_handle s (Call x) = tour_apply s x"
| "tour_handle s Render = render s"

definition tour_run :: "storage \<Rightarrow> tour_event list \<Rightarrow> tour_state" where
  "tour_run ls evs = foldl tour_handle (tour_init ls) evs"

text \<open>
  One operation per render, as the buttons of the tour overlay call them: each click
  calls one operation and the provider renders before the next click.
\<close>

definition clicks :: "tour_op list \<Rightarrow> tour_event list" where
  "clicks ops = concat (map (\<lambda>x. [Call x, Render]) ops)"

text \<open>
  The bound on \<open>currentStep\<close> that the operations are to keep; and a provider with
  nothing queued.
\<close>

definition step_in_bounds :: "tour_state \<Rightarrow> bool" where
  "step_in_bounds s =
     (0 \<le> currentStep (rendered s) \<and> currentStep (rendered s) \<le> int (length tourSteps) - 1)"

definition settled :: "tour_state \<Rightarrow> bool" where
  "settled s = (pending s = rendered s)"

section \<open>JavaScript strings and numbers\<close>

text \<open>
  Strings are lists of characters with codes below 256. The white space that
  \<open>parseInt\<close> skips and \<open>trim\<close> removes is, among those characters: tab, line feed,
  vertical tab, form feed, carriage return, space and no-break space.
\<close>

definition is_js_space :: "char \<Rightarrow> bool" where
  "is_js_space c =
     (c = CHR 0x09 \<or> c = CHR 0x0A \<or> c = CHR 0x0B \<or> c = CHR 0x0C \<or> c = CHR 0x0D
      \<or> c = CHR 0x20 \<or> c = CHR 0xA0)"

definition is_digit :: "char \<Rightarrow> bool" where
  "is_digit c = (48 \<le> (of_char c :: nat) \<and> (of_char c :: nat) \<le> 57)"

definition digit_val :: "char \<Rightarrow> int" where
  "digit_val c = int (of_char c) - 48"

definition dec_value :: "string \<Rightarrow> int" where
  "dec_value ds = foldl (\<lambda>a c. 10 * a + digit_val c) 0 ds"

text \<open>
  A JavaScript number as far as the client computes with it: \<open>NaN\<close> or an integer.
  (Timestamps are far below \<open>2^53\<close>, where doubles are exact; rounding of longer digit
  strings is not modelled.) Arithmetic with \<open>NaN\<close> gives \<open>NaN\<close> and every comparison
  with \<open>NaN\<close> is false.
\<close>

datatype jsnum = NaN | Num int

fun js_sub :: "jsnum \<Rightarrow> jsnum \<Rightarrow> jsnum" where
  "js_sub (Num a) (Num b) = Num (a - b)"
| "js_sub _ _ = NaN"

fun js_gt :: "jsnum \<Rightarrow> jsnum \<Rightarrow> bool" where
  "js_gt (Num a) (Num b) = (a > b)"
| "js_gt _ _ = False"

text \<open>
  \<open>parseInt(s, 10)\<close>: skip leading white space, read an optional sign, then the longest
  run of decimal digits; \<open>NaN\<close> when there is no digit.
\<close>

definition parseInt10 :: "string \<Rightarrow> jsnum" where
  "parseInt10 s =
     (let t = dropWhile is_js_space s;
          sgn = (case t of c # _ \<Rightarrow> if c = CHR ''-'' then (- 1 :: int) else 1 | [] \<Rightarrow> 1);
          u = (case t of c # r \<Rightarrow> if c = CHR ''-'' \<or> c = CHR ''+'' then r else t | [] \<Rightarrow> t);
          ds = takeWhile is_digit u
      in if ds = [] then NaN else Num (sgn * dec_value ds))"

text \<open>Truthiness of what \<open>getItem\<close> returns: \<open>null\<close> and the empty string are falsy.\<close>

definition truthy_item :: "string option \<Rightarrow> bool" where
  "truthy_item v = (case v of None \<Rightarrow> False | Some s \<Rightarrow> s \<noteq> [])"

section \<open>Session validity (api.js)\<close>

definition SESSION_STORAGE_KEY :: string where
  "SESSION_STORAGE_KEY = ''weather_agent_session_id''"

definition SESSION_TIMESTAMP_KEY :: string where
  "SESSION_TIMESTAMP_KEY = ''weather_agent_session_timestamp''"

definition SESSION_TIMEOUT :: int where
  "SESSION_TIMEOUT = 30 * 60 * 1000"

text \<open>\<open>isSessionValid\<close>, given \<open>localStorage\<close> and the value of \<open>Date.now()\<close>.\<close>

definition isSessionValid :: "storage \<Rightarrow> int \<Rightarrow> bool" where
  "isSessionValid ls now =
     (let sessionId = getItem ls SESSION_STORAGE_KEY;
          timestamp = getItem ls SESSION_TIMESTAMP_KEY
      in if \<not> truthy_item sessionId \<or> \<not> truthy_item timestamp then False
         else
           let sessionAge = js_sub (Num now) (parseInt10 (the timestamp))
           in if js_gt sessionAge (Num SESSION_TIMEOUT) then False else True)"

section \<open>The deployment script (deploy\_agents\_lab.sh)\<close>

subsection \<open>Shell utilities\<close>

definition newline :: char where
  "newline = CHR 0x0A"

text \<open>
  \<open>tr SET1 SET2\<close>: the i-th character of \<open>SET1\<close> is replaced by the i-th of
  \<open>SET2\<close>, every other character is copied. In the C locale \<open>[:lower:]\<close> and
  \<open>[:upper:]\<close> expand to the two alphabets below.
\<close>

definition tr_char :: "string \<Rightarrow> string \<Rightarrow> char \<Rightarrow> char" where
  "tr_char set1 set2 c = (case map_of (zip set1 set2) c of Some d \<Rightarrow> d | None \<Rightarrow> c)"

definition tr :: "string \<Rightarrow> string \<Rightarrow> string \<Rightarrow> string" where
  "tr set1 set2 s = map (tr_char set1 set2) s"

definition class_lower :: string where
  "class_lower = ''abcdefghijklmnopqrstuvwxyz''"

definition class_upper :: string where
  "class_upper = ''ABCDEFGHIJKLMNOPQRSTUVWXYZ''"

text \<open>
  The \<open>echo\<close> builtin with one argument: an argument that is \<open>-\<close> followed by one or
  more of the letters \<open>n\<close>, \<open>e\<close>, \<open>E\<close> is taken as options and not printed; any other
  argument is printed followed by a newline.
\<close>

definition is_echo_option :: "string \<Rightarrow> bool" where
  "is_echo_option a =
     (case a of
        c # r \<Rightarrow> c = CHR ''-'' \<and> r \<noteq> []
                 \<and> list_all (\<lambda>x. x = CHR ''n'' \<or> x = CHR ''e'' \<or> x = CHR ''E'') r
      | [] \<Rightarrow> False)"

definition echo :: "string \<Rightarrow> string" where
  "echo a =
     (if is_echo_option a then (if CHR ''n'' \<in> set a then [] else [newline])
      else a @ [newline])"

text \<open>Command substitution \<open>$(...)\<close> removes the trailing newlines of the output.\<close>

definition cmd_subst :: "string \<Rightarrow> string" where
  "cmd_subst out = rev (dropWhile (\<lambda>c. c = newline) (rev out))"

subsection \<open>deploy\_agent\<close>

text \<open>
  The part of the file system the job touches: the content of
  \<open>frontend/.env.production\<close> and the directories that exist under \<open>/tmp\<close>.
  The job's log file is not modelled.
\<close>

record fs =
  env_production :: string
  dirs :: "string set"

definition env_var_name :: "string \<Rightarrow> string" where
  "env_var_name service_name =
     cmd_subst (tr ''-'' ''_'' (tr class_lower class_upper (echo service_name))) @ ''_URL''"

definition lockfile :: "string \<Rightarrow> string" where
  "lockfile service_name = ''/tmp/deploy_env_'' @ service_name @ ''.lock''"

definition env_line :: "string \<Rightarrow> string \<Rightarrow> string" where
  "env_line service_name service_url =
     echo (''REACT_APP_'' @ env_var_name service_name @ ''='' @ service_url)"

text \<open>
  \<open>deploy_agent\<close> run on its own, given whether \<open>adk deploy\<close> succeeded and what
  \<open>gcloud run services describe\<close> printed. The result is the job's exit status and
  the file system it leaves; \<open>None\<close> when the job does not return: \<open>mkdir\<close> of an
  existing lock directory fails, and the loop retries for as long as the directory
  exists.
\<close>

definition deploy_agent :: "fs \<Rightarrow> string \<Rightarrow> bool \<Rightarrow> string \<Rightarrow> (nat \<times> fs) option" where
  "deploy_agent f service_name adk_ok gcloud_out =
     (if adk_ok then
        let service_url = cmd_subst gcloud_out
        in if lockfile service_name \<in> dirs f then None
           else
             let f1 = f\<lparr>dirs := insert (lockfile service_name) (dirs f)\<rparr>;
                 f2 = f1\<lparr>env_production :=
                          env_production f1 @ env_line service_name service_url\<rparr>;
                 f3 = f2\<lparr>dirs := dirs f2 - {lockfile service_name}\<rparr>
             in Some (0, f3)
      else Some (1, f))"



subsection \<open>Concurrent jobs and the lock directory\<close>

text \<open>
  The statements of \<open>deploy_agent\<close> between the deployment and the final messages, one
  job per background process: \<open>mkdir\<close> of the lock directory (retried until it
  succeeds), the append to the env file, \<open>rmdir\<close>.
\<close>

datatype pc = Locking | Appending | Unlocking | Finished

record job =
  job_name :: string
  job_url :: string
  job_pc :: pc

record sys =
  sys_fs :: fs
  jobs :: "job list"

definition job_step :: "sys \<Rightarrow> nat \<Rightarrow> sys" where
  "job_step s i =
     (if i < length (jobs s) then
        let j = jobs s ! i; f = sys_fs s; l = lockfile (job_name j)
        in case job_pc j of
             Locking \<Rightarrow>
               if l \<in> dirs f then s
               else s\<lparr>sys_fs := f\<lparr>dirs := insert l (dirs f)\<rparr>,
                       jobs := (jobs s)[i := j\<lparr>job_pc := Appending\<rparr>]\<rparr>
           | Appending \<Rightarrow>
               s\<lparr>sys_fs := f\<lparr>env_production :=
                              env_production f @ env_line (job_name j) (job_url j)\<rparr>,
                 jobs := (jobs s)[i := j\<lparr>job_pc := Unlocking\<rparr>]\<rparr>
           | Unlocking \<Rightarrow>
               s\<lparr>sys_fs := f\<lparr>dirs := dirs f - {l}\<rparr>,
                 jobs := (jobs s)[i := j\<lparr>job_pc := Finished\<rparr>]\<rparr>
           | Finished \<Rightarrow> s
      else s)"

text \<open>A schedule names, step by step, the job that runs next.\<close>

definition run_schedule :: "sys \<Rightarrow> nat list \<Rightarrow> sys" where
  "run_schedule s sched = foldl job_step s sched"

definition start_jobs :: "(string \<times> string) list \<Rightarrow> sys" where
  "start_jobs names_urls =
     \<lparr>sys_fs = \<lparr>env_production = [], dirs = {}\<rparr>,
      jobs = map (\<lambda>(n, u). \<lparr>job_name = n, job_url = u, job_pc = Locking\<rparr>) names_urls\<rparr>"

definition holds_lock :: "job \<Rightarrow> bool" where
  "holds_lock j = (job_pc j = Appending \<or> job_pc j = Unlocking)"

subsection \<open>Waiting for the jobs\<close>

text \<open>
  The script runs under \<open>set -e\<close>. The arithmetic command \<open>((v++))\<close> increments \<open>v\<close>
  and returns status 1 when the value of the expression, the old \<open>v\<close>, is 0. The flag
  \<open>arith_errexit\<close> says whether the shell applies \<open>set -e\<close> to \<open>((...))\<close>: bash 4.1
  and later do, bash 3.2 does not.
\<close>

record counts =
  success_count :: int
  failed_count :: int

datatype 'a sh = Running 'a | Exited nat

definition post_incr_status :: "int \<Rightarrow> nat" where
  "post_incr_status v = (if v = 0 then 1 else 0)"

fun wait_loop :: "bool \<Rightarrow> nat list \<Rightarrow> counts \<Rightarrow> counts sh" where
  "wait_loop arith_errexit [] c = Running c"
| "wait_loop arith_errexit (status # rest) c =
     (if status = 0 then
        (let r = post_incr_status (success_count c);
             c' = c\<lparr>success_count := success_count c + 1\<rparr>
         in if arith_errexit \<and> r \<noteq> 0 then Exited r
            else wait_loop arith_errexit rest c')
      else
        (let r = post_incr_status (failed_count c);
             c' = c\<lparr>failed_count := failed_count c + 1\<rparr>
         in if arith_errexit \<and> r \<noteq> 0 then Exited r
            else wait_loop arith_errexit rest c'))"

text \<open>
  The end of the script, from the wait loop on, given the exit status of each
  background job in the order of \<open>AGENTS_TO_DEPLOY\<close>: the script's exit status and the
  summary it printed (successful, failed, total), if it got that far.
\<close>

record script_result =
  exit_status :: nat
  summary :: "(int \<times> int \<times> nat) option"

definition wait_and_report :: "bool \<Rightarrow> nat list \<Rightarrow> script_result" where
  "wait_and_report arith_errexit statuses =
     (case wait_loop arith_errexit statuses \<lparr>success_count = 0, failed_count = 0\<rparr> of
        Exited n \<Rightarrow> \<lparr>exit_status = n, summary = None\<rparr>
      | Running c \<Rightarrow>
          \<lparr>exit_status = (if failed_count c > 0 then 1 else 0),
           summary = Some (success_count c, failed_count c, length statuses)\<rparr>)"

section \<open>JSON values as JavaScript sees them\<close>

text \<open>
  A value of a response or request body, or \<open>undefined\<close>. Numbers are restricted to
  integers. Object fields keep their order.
\<close>

datatype json =
    JUndefined | JNull | JBool bool | JNum int | JStr string
  | JArr "json list" | JObj "(string \<times> json) list"

fun truthy :: "json \<Rightarrow> bool" where
  "truthy JUndefined = False"
| "truthy JNull = False"
| "truthy (JBool b) = b"
| "truthy (JNum n) = (n \<noteq> 0)"
| "truthy (JStr s) = (s \<noteq> [])"
| "truthy (JArr xs) = True"
| "truthy (JObj kvs) = True"

definition nullish :: "json \<Rightarrow> bool" where
  "nullish v = (v = JUndefined \<or> v = JNull)"

text \<open>\<open>a || b\<close>\<close>

definition or_else :: "json \<Rightarrow> json \<Rightarrow> json" where
  "or_else a b = (if truthy a then a else b)"

fun dec_of_nat :: "nat \<Rightarrow> string" where
  "dec_of_nat n =
     (if n < 10 then [char_of (48 + n)]
      else dec_of_nat (n div 10) @ [char_of (48 + n mod 10)])"

declare dec_of_nat.simps [simp del]

definition dec_of_int :: "int \<Rightarrow> string" where
  "dec_of_int i = (if i < 0 then CHR ''-'' # dec_of_nat (nat (- i)) else dec_of_nat (nat i))"

fun join :: "string \<Rightarrow> string list \<Rightarrow> string" where
  "join sep [] = []"
| "join sep [x] = x"
| "join sep (x # y # ys) = x @ sep @ join sep (y # ys)"

text \<open>
  \<open>ToString\<close>, as string concatenation, template literals, \<open>new Error(v)\<close>,
  \<open>setItem\<close> and \<open>JSON.parse\<close> apply it to an argument.
\<close>

fun js_to_string :: "json \<Rightarrow> string" where
  "js_to_string JUndefined = ''undefined''"
| "js_to_string JNull = ''null''"
| "js_to_string (JBool b) = (if b then ''true'' else ''false'')"
| "js_to_string (JNum n) = dec_of_int n"
| "js_to_string (JStr s) = s"
| "js_to_string (JArr xs) =
     join '','' (map (\<lambda>x. if x = JUndefined \<or> x = JNull then [] else js_to_string x) xs)"
| "js_to_string (JObj kvs) = ''[object Object]''"

definition lookup :: "(string \<times> json) list \<Rightarrow> string \<Rightarrow> json" where
  "lookup kvs k = (case map_of kvs k of Some v \<Rightarrow> v | None \<Rightarrow> JUndefined)"

text \<open>
  \<open>v.k\<close> for a value that is neither \<open>null\<close> nor \<open>undefined\<close>, and a name \<open>k\<close> that
  is not a built-in property (the client reads \<open>content\<close>, \<open>parts\<close>, \<open>text\<close>, \<open>id\<close>,
  \<open>message\<close>, \<open>event\<close>, \<open>insights\<close>, \<open>evacuation_routes\<close>): the field of an object,
  \<open>undefined\<close> on anything else.
\<close>

fun js_prop :: "json \<Rightarrow> string \<Rightarrow> json" where
  "js_prop (JObj kvs) k = lookup kvs k"
| "js_prop v k = JUndefined"

text \<open>
  What can be thrown or rejected: an axios error (its message; its response, when the
  server answered, as status and body), the errors of the language, a plain \<open>Error\<close>
  with its message, and the event a \<open>FileReader\<close> rejects with.
\<close>

datatype js_error =
    AxiosError string "(nat \<times> json) option"
  | TypeError string
  | SyntaxError string
  | Error string
  | ProgressEvent

text \<open>\<open>v.k\<close>: a \<open>TypeError\<close> on \<open>null\<close> and \<open>undefined\<close>.\<close>

definition get_prop :: "json \<Rightarrow> string \<Rightarrow> js_error + json" where
  "get_prop v k =
     (if nullish v
      then Inl (TypeError (''Cannot read properties of '' @ js_to_string v))
      else Inr (js_prop v k))"

text \<open>\<open>v?.k\<close>\<close>

definition opt_prop :: "json \<Rightarrow> string \<Rightarrow> json" where
  "opt_prop v k = (if nullish v then JUndefined else js_prop v k)"

text \<open>\<open>v?.[i]\<close>\<close>

fun opt_index :: "json \<Rightarrow> nat \<Rightarrow> json" where
  "opt_index (JArr xs) i = (if i < length xs then xs ! i else JUndefined)"
| "opt_index (JStr s) i = (if i < length s then JStr [s ! i] else JUndefined)"
| "opt_index (JObj kvs) i = lookup kvs (dec_of_nat i)"
| "opt_index v i = JUndefined"

text \<open>
  The values \<open>for (const x of v)\<close> runs through: the elements of an array, the
  characters of a string; anything else is not iterable.
\<close>

fun js_iter :: "json \<Rightarrow> js_error + json list" where
  "js_iter (JArr xs) = Inr xs"
| "js_iter (JStr s) = Inr (map (\<lambda>c. JStr [c]) s)"
| "js_iter v = Inl (TypeError (js_to_string v @ '' is not iterable''))"

text \<open>\<open>e.message\<close>, \<open>e.response\<close>, \<open>e.response?.status\<close>, \<open>e.response?.data?.message\<close>\<close>

fun error_message :: "js_error \<Rightarrow> json" where
  "error_message (AxiosError m r) = JStr m"
| "error_message (TypeError m) = JStr m"
| "error_message (SyntaxError m) = JStr m"
| "error_message (Error m) = JStr m"
| "error_message ProgressEvent = JUndefined"

fun error_response :: "js_error \<Rightarrow> (nat \<times> json) option" where
  "error_response (AxiosError m r) = r"
| "error_response e = None"

definition error_status :: "js_error \<Rightarrow> nat option" where
  "error_status e = map_option fst (error_response e)"

definition error_data_message :: "js_error \<Rightarrow> json" where
  "error_data_message e =
     (case error_response e of None \<Rightarrow> JUndefined | Some (st, d) \<Rightarrow> opt_prop d ''message'')"

text \<open>\<open>new Error(error.response?.data?.message || error.message || fallback)\<close>\<close>

definition new_Error :: "js_error \<Rightarrow> string \<Rightarrow> js_error" where
  "new_Error e fallback =
     Error (js_to_string
       (or_else (error_data_message e) (or_else (error_message e) (JStr fallback))))"

text \<open>\<open>s.split(sep)\<close> for a separator of one character.\<close>

fun split_on :: "char \<Rightarrow> string \<Rightarrow> string list" where
  "split_on sep [] = [[]]"
| "split_on sep (c # cs) =
     (if c = sep then [] # split_on sep cs
      else (case split_on sep cs of
              x # xs \<Rightarrow> (c # x) # xs
            | [] \<Rightarrow> [[c]]))"

section \<open>The browser and the network\<close>

text \<open>The keys of \<open>this.clients\<close>.\<close>

datatype agent =
  AlertsClient | ForecastClient | RiskClient | EmergencyClient | ChatClient
  | HurricaneClient | MapClient

record request =
  client :: agent
  path :: string
  body :: json

text \<open>
  A \<open>post\<close> resolves with \<open>response.data\<close> or rejects with an error. The network
  answers a request as a function of the request and of the number of requests sent
  before it.
\<close>

datatype http_outcome = Resolved json | Rejected js_error

type_synonym net = "nat \<Rightarrow> request \<Rightarrow> http_outcome"

text \<open>
  What an operation reads and changes: the two storages, the clock (\<open>Date.now()\<close>,
  taken as constant during one operation), the first argument of every
  \<open>console.error\<close> call, the events dispatched on \<open>window\<close>, the requests sent.
  \<open>console.log\<close> is not recorded.
\<close>

record world =
  localStorage :: storage
  sessionStorage :: storage
  clock :: int
  console_error :: "string list"
  events :: "string list"
  requests :: "request list"

text \<open>
  An asynchronous function: from the world to what it throws (\<open>Inl\<close>) or returns
  (\<open>Inr\<close>), and the world it leaves.
\<close>

type_synonym 'a io = "world \<Rightarrow> (js_error + 'a) \<times> world"

definition return_io :: "'a \<Rightarrow> 'a io" where
  "return_io a w = (Inr a, w)"

definition throw_io :: "js_error \<Rightarrow> 'a io" where
  "throw_io e w = (Inl e, w)"

definition bind_io :: "'a io \<Rightarrow> ('a \<Rightarrow> 'b io) \<Rightarrow> 'b io" where
  "bind_io m f w = (case m w of (Inl e, w') \<Rightarrow> (Inl e, w') | (Inr a, w') \<Rightarrow> f a w')"

definition try_catch :: "'a io \<Rightarrow> (js_error \<Rightarrow> 'a io) \<Rightarrow> 'a io" where
  "try_catch m h w = (case m w of (Inl e, w') \<Rightarrow> h e w' | (Inr a, w') \<Rightarrow> (Inr a, w'))"

definition lift :: "js_error + 'a \<Rightarrow> 'a io" where
  "lift r w = (r, w)"

definition effect :: "(world \<Rightarrow> world) \<Rightarrow> unit io" where
  "effect f w = (Inr (), f w)"

definition log_error :: "string \<Rightarrow> world \<Rightarrow> world" where
  "log_error label w = w\<lparr>console_error := console_error w @ [label]\<rparr>"

definition post :: "net \<Rightarrow> agent \<Rightarrow> string \<Rightarrow> json \<Rightarrow> json io" where
  "post net c p b w =
     (let r = \<lparr>client = c, path = p, body = b\<rparr>;
          w' = w\<lparr>requests := requests w @ [r]\<rparr>
      in case net (length (requests w)) r of
           Resolved d \<Rightarrow> (Inr d, w')
         | Rejected e \<Rightarrow> (Inl e, w'))"

section \<open>The API client (api.js)\<close>

subsection \<open>Session handling\<close>

definition startsWith :: "string \<Rightarrow> string \<Rightarrow> bool" where
  "startsWith s p = (take (length p) s = p)"

definition state_prefixes :: "string list" where
  "state_prefixes =
     [''dashboard'', ''weather_agent'', ''chat'', ''forecast'', ''risk'', ''emergency'']"

text \<open>The test \<open>key && (key.startsWith('dashboard') || ...)\<close> of \<open>clearBrowserState\<close>.\<close>

definition is_state_key :: "string \<Rightarrow> bool" where
  "is_state_key k = (k \<noteq> [] \<and> list_ex (startsWith k) state_prefixes)"

text \<open>
  \<open>clearBrowserState\<close>: the loop collects \<open>key(0)\<close>, ..., \<open>key(length - 1)\<close> that pass
  the test; each is then removed; \<open>sessionStorage\<close> is cleared; the event
  \<open>sessionExpired\<close> is dispatched.
\<close>

definition clearBrowserState :: "world \<Rightarrow> world" where
  "clearBrowserState w =
     (let keysToRemove = filter is_state_key (map fst (localStorage w))
      in w\<lparr>localStorage := foldl removeItem (localStorage w) keysToRemove,
           sessionStorage := [],
           events := events w @ [''sessionExpired'']\<rparr>)"

definition updateSessionTimestamp :: "world \<Rightarrow> world" where
  "updateSessionTimestamp w =
     w\<lparr>localStorage := setItem (localStorage w) SESSION_TIMESTAMP_KEY (dec_of_int (clock w))\<rparr>"

definition store_session :: "json \<Rightarrow> world \<Rightarrow> world" where
  "store_session newSessionId w =
     w\<lparr>localStorage :=
         setItem (setItem (localStorage w) SESSION_STORAGE_KEY (js_to_string newSessionId))
           SESSION_TIMESTAMP_KEY (dec_of_int (clock w))\<rparr>"

definition getOrCreateSession :: "net \<Rightarrow> json io" where
  "getOrCreateSession net w =
     (if isSessionValid (localStorage w) (clock w) then
        (Inr (case getItem (localStorage w) SESSION_STORAGE_KEY of
                Some sessionId \<Rightarrow> JStr sessionId | None \<Rightarrow> JNull), w)
      else
        let w1 = (if truthy_item (getItem (localStorage w) SESSION_STORAGE_KEY)
                  then clearBrowserState w else w)
        in bind_io
             (post net ChatClient ''/apps/chat/users/user_001/sessions''
                (JObj [(''state'', JObj [])]))
             (\<lambda>data. bind_io (lift (get_prop data ''id''))
             (\<lambda>newSessionId. bind_io (effect (store_session newSessionId))
             (\<lambda>_. return_io newSessionId))) w1)"

subsection \<open>Request bodies\<close>

definition text_part :: "string \<Rightarrow> json" where
  "text_part t = JObj [(''text'', JStr t)]"

definition user_message :: "json list \<Rightarrow> json" where
  "user_message parts = JObj [(''role'', JStr ''user''), (''parts'', JArr parts)]"

text \<open>The body that every operation but \<open>geocode\<close> posts to \<open>/run\<close>.\<close>

definition run_body :: "string \<Rightarrow> json \<Rightarrow> json \<Rightarrow> json" where
  "run_body app sessionId message =
     JObj [(''app_name'', JStr app), (''user_id'', JStr ''user_001''),
           (''session_id'', sessionId), (''new_message'', message),
           (''streaming'', JBool False)]"

subsection \<open>query and queryWithImage\<close>

text \<open>
  The inner loop over the parts of one event of an array response. After adding a
  truthy \<open>part.text\<close> it logs \<open>part.text.substring(0, 100)\<close>, which throws unless
  the text is a string.
\<close>

fun event_part_texts :: "string \<Rightarrow> json list \<Rightarrow> js_error + string" where
  "event_part_texts acc [] = Inr acc"
| "event_part_texts acc (part # ps) =
     (case get_prop part ''text'' of
        Inl e \<Rightarrow> Inl e
      | Inr t \<Rightarrow>
          if truthy t then
            (case t of
               JStr s \<Rightarrow> event_part_texts (acc @ s) ps
             | _ \<Rightarrow> Inl (TypeError ''part.text.substring is not a function''))
          else event_part_texts acc ps)"

text \<open>The loop over the parts of a single-object response.\<close>

fun object_part_texts :: "string \<Rightarrow> json list \<Rightarrow> js_error + string" where
  "object_part_texts acc [] = Inr acc"
| "object_part_texts acc (part # ps) =
     (case get_prop part ''text'' of
        Inl e \<Rightarrow> Inl e
      | Inr t \<Rightarrow> object_part_texts (if truthy t then acc @ js_to_string t else acc) ps)"

text \<open>The loop over the events of an array response.\<close>

fun events_text :: "string \<Rightarrow> json list \<Rightarrow> js_error + string" where
  "events_text acc [] = Inr acc"
| "events_text acc (event # es) =
     (case get_prop event ''content'' of
        Inl e \<Rightarrow> Inl e
      | Inr c \<Rightarrow>
          if truthy (opt_prop c ''parts'') then
            (case js_iter (opt_prop c ''parts'') of
               Inl e \<Rightarrow> Inl e
             | Inr ps \<Rightarrow>
                 (case event_part_texts acc ps of
                    Inl e \<Rightarrow> Inl e
                  | Inr acc' \<Rightarrow> events_text acc' es))
          else events_text acc es)"

text \<open>
  The extraction of \<open>responseText\<close> from \<open>response.data\<close>, the same statements in
  \<open>query\<close> and \<open>queryWithImage\<close>.
\<close>

definition response_text :: "json \<Rightarrow> js_error + string" where
  "response_text data =
     (case data of
        JArr evs \<Rightarrow> events_text [] evs
      | _ \<Rightarrow>
          (case get_prop data ''content'' of
             Inl e \<Rightarrow> Inl e
           | Inr c \<Rightarrow>
               if truthy (opt_prop c ''parts'') then
                 (case js_iter (opt_prop c ''parts'') of
                    Inl e \<Rightarrow> Inl e
                  | Inr ps \<Rightarrow> object_part_texts [] ps)
               else Inr []))"

record query_result =
  content :: string
  session_id :: json

text \<open>The \<open>catch\<close> clause of \<open>query\<close> and \<open>queryWithImage\<close>.\<close>

definition query_catch :: "string \<Rightarrow> js_error \<Rightarrow> query_result io" where
  "query_catch fallback e w =
     (let w1 = log_error ''[API] Error details:'' w;
          w2 = (if error_status e = Some 404 \<or> error_status e = Some 401
                then clearBrowserState w1 else w1)
      in (Inl (new_Error e fallback), w2))"

text \<open>The \<open>try\<close> block of \<open>query\<close>.\<close>

definition query_try :: "net \<Rightarrow> string \<Rightarrow> query_result io" where
  "query_try net userQuery =
     bind_io (getOrCreateSession net)
     (\<lambda>currentSessionId. bind_io
        (post net ChatClient ''/run''
           (run_body ''chat'' currentSessionId (user_message [text_part userQuery])))
     (\<lambda>data. bind_io (lift (response_text data))
     (\<lambda>responseText. bind_io (effect updateSessionTimestamp)
     (\<lambda>_. return_io \<lparr>content = responseText, session_id = currentSessionId\<rparr>))))"

definition query :: "net \<Rightarrow> string \<Rightarrow> query_result io" where
  "query net userQuery =
     try_catch (query_try net userQuery) (query_catch ''Failed to query agent'')"

text \<open>
  An image file: its \<open>type\<close> and what \<open>FileReader.readAsDataURL\<close> delivers, the data
  URL or, on a read error, nothing.
\<close>

record image_file =
  file_type :: string
  data_url :: "string option"

text \<open>The promise around the \<open>FileReader\<close>: \<open>reader.result.split(',')[1]\<close>.\<close>

definition read_base64 :: "image_file \<Rightarrow> json io" where
  "read_base64 imageFile =
     lift (case data_url imageFile of
             None \<Rightarrow> Inl ProgressEvent
           | Some r \<Rightarrow> Inr (opt_index (JArr (map JStr (split_on (CHR '','') r))) 1))"

definition image_part :: "image_file \<Rightarrow> json \<Rightarrow> json" where
  "image_part imageFile imageBase64 =
     JObj [(''inlineData'',
       JObj [(''mimeType'', or_else (JStr (file_type imageFile)) (JStr ''image/jpeg'')),
             (''data'', imageBase64)])]"

definition queryWithImage_try :: "net \<Rightarrow> string \<Rightarrow> image_file \<Rightarrow> query_result io" where
  "queryWithImage_try net userQuery imageFile =
     bind_io (getOrCreateSession net)
     (\<lambda>currentSessionId. bind_io (read_base64 imageFile)
     (\<lambda>imageBase64. bind_io
        (post net ChatClient ''/run''
           (run_body ''chat'' currentSessionId
              (user_message [text_part userQuery, image_part imageFile imageBase64])))
     (\<lambda>data. bind_io (lift (response_text data))
     (\<lambda>responseText. bind_io (effect updateSessionTimestamp)
     (\<lambda>_. return_io \<lparr>content = responseText, session_id = currentSessionId\<rparr>)))))"

definition queryWithImage :: "net \<Rightarrow> string \<Rightarrow> image_file \<Rightarrow> query_result io" where
  "queryWithImage net userQuery imageFile =
     try_catch (queryWithImage_try net userQuery imageFile)
       (query_catch ''Failed to query agent with image'')"

subsection \<open>The shape of a response, in the words of the interface\<close>

text \<open>
  A part is well formed when it is not \<open>null\<close> and its \<open>text\<close> is a string or is
  absent (or otherwise falsy). A \<open>content\<close> is well formed when it has no \<open>parts\<close>
  or its \<open>parts\<close> is an array of well-formed parts. An event is well formed when it
  is not \<open>null\<close> and its \<open>content\<close> is well formed.
\<close>

definition wf_part :: "json \<Rightarrow> bool" where
  "wf_part p =
     (\<not> nullish p \<and> (case js_prop p ''text'' of JStr s \<Rightarrow> True | t \<Rightarrow> \<not> truthy t))"

definition wf_content :: "json \<Rightarrow> bool" where
  "wf_content c =
     (case opt_prop c ''parts'' of JArr ps \<Rightarrow> list_all wf_part ps | t \<Rightarrow> \<not> truthy t)"

definition wf_event :: "json \<Rightarrow> bool" where
  "wf_event ev = (\<not> nullish ev \<and> wf_content (js_prop ev ''content''))"

text \<open>The text field of a part, and the texts of all parts of \<open>v.content.parts\<close>, in order.\<close>

definition part_text :: "json \<Rightarrow> string" where
  "part_text p = (case js_prop p ''text'' of JStr s \<Rightarrow> s | t \<Rightarrow> [])"

definition content_parts :: "json \<Rightarrow> json list" where
  "content_parts v =
     (case opt_prop (js_prop v ''content'') ''parts'' of JArr ps \<Rightarrow> ps | t \<Rightarrow> [])"

definition texts_of :: "json \<Rightarrow> string" where
  "texts_of v = concat (map part_text (content_parts v))"

text \<open>
  The body of the response to the \<open>/run\<close> call of \<open>query\<close>, when the call is reached
  and resolves.
\<close>

definition query_run_response :: "net \<Rightarrow> string \<Rightarrow> world \<Rightarrow> json option" where
  "query_run_response net userQuery w =
     (case getOrCreateSession net w of
        (Inl e, w1) \<Rightarrow> None
      | (Inr currentSessionId, w1) \<Rightarrow>
          (case post net ChatClient ''/run''
                  (run_body ''chat'' currentSessionId (user_message [text_part userQuery])) w1 of
             (Inl e, w2) \<Rightarrow> None
           | (Inr data, w2) \<Rightarrow> Some data))"

text \<open>
  A network for examples: it answers the creation of a session with the id \<open>s1\<close> and
  every other request with the given body.
\<close>

definition answering :: "json \<Rightarrow> net" where
  "answering d n r =
     (if path r = ''/run'' then Resolved d else Resolved (JObj [(''id'', JStr ''s1'')]))"

definition fresh_world :: world where
  "fresh_world =
     \<lparr>localStorage = [], sessionStorage = [], clock = 1000, console_error = [],
      events = [], requests = []\<rparr>"

text \<open>The \<open>content\<close> of what an operation returned, if it returned.\<close>

definition returned_content :: "(js_error + query_result) \<times> world \<Rightarrow> string option" where
  "returned_content x = (case fst x of Inl e \<Rightarrow> None | Inr r \<Rightarrow> Some (content r))"

text \<open>Two response bodies for examples.\<close>

definition two_events :: json where
  "two_events =
     JArr [JObj [(''content'', JObj [(''parts'',
              JArr [text_part ''Hello, '', JObj [(''functionCall'', JObj [])]])])],
           JObj [(''author'', JStr ''tool'')],
           JObj [(''content'', JObj [(''parts'', JArr [text_part ''world'']),
                                    (''role'', JStr ''model'')])]]"

definition one_object :: json where
  "one_object = JObj [(''content'', JObj [(''parts'', JArr [text_part ''Hi'', text_part ''!''])])]"

subsection \<open>The state reset, in the words of the code\<close>

text \<open>
  What \<open>clearBrowserState\<close> leaves, seen from one key \<open>k\<close> of \<open>localStorage\<close>:
  \<open>sessionStorage\<close> is empty, \<open>k\<close> is gone if it starts with one of the six
  prefixes and holds what it held before the operation otherwise, and
  \<open>sessionExpired\<close> has been dispatched.
\<close>

definition reset_after :: "world \<Rightarrow> world \<Rightarrow> string \<Rightarrow> bool" where
  "reset_after w w' k =
     (sessionStorage w' = []
      \<and> getItem (localStorage w') k = (if is_state_key k then None else getItem (localStorage w) k)
      \<and> ''sessionExpired'' \<in> set (events w'))"

text \<open>An operation kept every key that does not start with one of the prefixes.\<close>

definition other_keys_kept :: "world \<Rightarrow> world \<Rightarrow> string \<Rightarrow> bool" where
  "other_keys_kept w w' k =
     (is_state_key k \<or> getItem (localStorage w') k = getItem (localStorage w) k)"

text \<open>
  For examples: a network that creates sessions and rejects \<open>/run\<close> with a status, a
  browser with a finished tour, cached alerts and a draft, and an image.
\<close>

definition run_rejecting :: "nat \<Rightarrow> net" where
  "run_rejecting st n r =
     (if path r = ''/run''
      then Rejected (AxiosError ''Request failed'' (Some (st, JObj [])))
      else Resolved (JObj [(''id'', JStr ''s1'')]))"

definition visited_world :: world where
  "visited_world =
     \<lparr>localStorage = [(''tourCompleted'', ''true''), (''dashboardAlerts'', ''[]'')],
      sessionStorage = [(''draft'', ''x'')], clock = 1000, console_error = [],
      events = [], requests = []\<rparr>"

definition png :: image_file where
  "png = \<lparr>file_type = ''image/png'', data_url = Some ''data:image/png;base64,AAAA''\<rparr>"

subsection \<open>The agent operations\<close>

text \<open>
  \<open>JSON.parse\<close> and \<open>JSON.stringify\<close> belong to the language, not to the client: the
  operations take them as parameters, \<open>parse\<close> answering \<open>None\<close> where
  \<open>JSON.parse\<close> throws a \<open>SyntaxError\<close>.
\<close>

type_synonym parser = "string \<Rightarrow> json option"

text \<open>
  The two statements that open every agent call except those of \<open>query\<close> and
  \<open>geocode\<close>: the session is created and \<open>sessionResponse.data.id\<close> is read.
\<close>

definition create_session :: "net \<Rightarrow> agent \<Rightarrow> string \<Rightarrow> json io" where
  "create_session net c app =
     bind_io (post net c (''/apps/'' @ app @ ''/users/user_001/sessions'')
                (JObj [(''state'', JObj [])]))
     (\<lambda>data. lift (get_prop data ''id''))"

text \<open>
  \<open>finalStep?.content?.parts?.[0]?.text\<close> for the last element of a response that is a
  non-empty array; \<open>None\<close> when the response is not one.
\<close>

definition final_text :: "json \<Rightarrow> json option" where
  "final_text data =
     (case data of
        JArr steps \<Rightarrow>
          if steps \<noteq> []
          then Some (opt_prop (opt_index (opt_prop (opt_prop (last steps) ''content'')
                       ''parts'') 0) ''text'')
          else None
      | _ \<Rightarrow> None)"

text \<open>
  What \<open>if (text) { try { ... JSON.parse(text) ... } catch ... }\<close> meets: no truthy
  text, a text that parses, a text that does not.
\<close>

datatype parsed = NoText | Parsed json | ParseFailed json

definition parse_final :: "parser \<Rightarrow> json \<Rightarrow> parsed" where
  "parse_final parse data =
     (case final_text data of
        None \<Rightarrow> NoText
      | Some text \<Rightarrow>
          if truthy text then
            (case parse (js_to_string text) of
               Some v \<Rightarrow> Parsed v
             | None \<Rightarrow> ParseFailed text)
          else NoText)"

text \<open>
  The parsing block as most operations have it: the summary starts as \<open>null\<close>, a
  failure to parse is logged and leaves it \<open>null\<close>.
\<close>

definition parsed_or_null :: "parser \<Rightarrow> string \<Rightarrow> json \<Rightarrow> json io" where
  "parsed_or_null parse label data =
     (case parse_final parse data of
        NoText \<Rightarrow> return_io JNull
      | Parsed v \<Rightarrow> return_io v
      | ParseFailed text \<Rightarrow> bind_io (effect (log_error label)) (\<lambda>_. return_io JNull))"

text \<open>The \<open>catch\<close> clause that logs and throws a new \<open>Error\<close>.\<close>

definition log_and_throw :: "string \<Rightarrow> string \<Rightarrow> js_error \<Rightarrow> 'a io" where
  "log_and_throw label fallback error =
     bind_io (effect (log_error label)) (\<lambda>_. throw_io (new_Error error fallback))"

definition getForecast :: "parser \<Rightarrow> net \<Rightarrow> string \<Rightarrow> json io" where
  "getForecast parse net location =
     try_catch
       (bind_io (create_session net ForecastClient ''forecast_agent'')
        (\<lambda>sessionId. bind_io
           (post net ForecastClient ''/run''
              (run_body ''forecast_agent'' sessionId
                 (user_message [text_part (''Get forecast for '' @ location)])))
        (\<lambda>data. bind_io
           (parsed_or_null parse ''[API] Failed to parse forecast JSON:'' data)
        (\<lambda>forecastSummary. bind_io (effect updateSessionTimestamp)
        (\<lambda>_. return_io
           (JObj [(''content'', (case final_text data of Some text \<Rightarrow> text
                                 | None \<Rightarrow> JStr [])),
                  (''session_id'', sessionId)]))))))
       (\<lambda>error. bind_io (effect (log_error ''[API] Error getting forecast:''))
                 (\<lambda>_. throw_io error))"

definition getAlerts :: "parser \<Rightarrow> net \<Rightarrow> string \<Rightarrow> json io" where
  "getAlerts parse net location =
     try_catch
       (bind_io (create_session net AlertsClient ''alerts_snapshot_agent'')
        (\<lambda>sessionId. bind_io
           (post net AlertsClient ''/run''
              (run_body ''alerts_snapshot_agent'' sessionId
                 (user_message [text_part (''Get alerts for '' @ location)])))
        (\<lambda>data. bind_io (parsed_or_null parse ''[API] Failed to parse alerts JSON:'' data)
        (\<lambda>alertsSummary. bind_io (effect updateSessionTimestamp)
        (\<lambda>_. return_io alertsSummary)))))
       (log_and_throw ''[API] Error getting alerts:'' ''Failed to get alerts'')"

definition getEvacuationRoute :: "parser \<Rightarrow> net \<Rightarrow> string \<Rightarrow> string \<Rightarrow> json io" where
  "getEvacuationRoute parse net origin destination =
     try_catch
       (bind_io (create_session net EmergencyClient ''emergency_resources_agent'')
        (\<lambda>sessionId. bind_io
           (post net EmergencyClient ''/run''
              (run_body ''emergency_resources_agent'' sessionId
                 (user_message [text_part (''Find evacuation routes from '' @ origin
                                            @ '' to '' @ destination)])))
        (\<lambda>data. bind_io
           (parsed_or_null parse ''[API] Failed to parse resources JSON:'' data)
        (\<lambda>resourcesSummary. bind_io (effect updateSessionTimestamp)
        (\<lambda>_. return_io
           (JObj [(''content'', or_else (opt_prop resourcesSummary ''insights'') (JStr [])),
                  (''evacuation_routes'',
                   or_else (opt_prop resourcesSummary ''evacuation_routes'') (JArr [])),
                  (''session_id'', sessionId)]))))))
       (log_and_throw ''[API] Error getting evacuation route:''
          ''Failed to get evacuation route'')"

text \<open>\<open>analyzeRisk\<close> reads \<open>alert.event\<close> for its first log line.\<close>

definition analyzeRisk :: "(json \<Rightarrow> string) \<Rightarrow> parser \<Rightarrow> net \<Rightarrow> json \<Rightarrow> json io" where
  "analyzeRisk stringify parse net alert =
     try_catch
       (bind_io (lift (get_prop alert ''event''))
        (\<lambda>_. bind_io (create_session net RiskClient ''risk_analysis_agent'')
        (\<lambda>sessionId. bind_io
           (post net RiskClient ''/run''
              (run_body ''risk_analysis_agent'' sessionId
                 (user_message [text_part (stringify alert)])))
        (\<lambda>data. bind_io (parsed_or_null parse ''[API] Failed to parse risk JSON:'' data)
        (\<lambda>riskSummary. bind_io (effect updateSessionTimestamp)
        (\<lambda>_. return_io riskSummary))))))
       (log_and_throw ''[API] Error analyzing risk:'' ''Failed to analyze risk'')"

text \<open>
  \<open>findResources\<close>: \<open>radius\<close> defaults to 10. A failure to parse is logged and
  makes the operation return \<open>null\<close> at once.
\<close>

definition findResources ::
  "parser \<Rightarrow> net \<Rightarrow> string \<Rightarrow> string \<Rightarrow> int option \<Rightarrow> json io" where
  "findResources parse net location resourceType radius =
     try_catch
       (bind_io (create_session net EmergencyClient ''emergency_resources_agent'')
        (\<lambda>sessionId. bind_io
           (post net EmergencyClient ''/run''
              (run_body ''emergency_resources_agent'' sessionId
                 (user_message [text_part (''Find '' @ resourceType @ '' near '' @ location
                    @ '' within ''
                    @ dec_of_int (case radius of None \<Rightarrow> 10 | Some r \<Rightarrow> r)
                    @ '' miles'')])))
        (\<lambda>data.
           (case parse_final parse data of
              ParseFailed text \<Rightarrow>
                bind_io (effect (log_error ''[API] Failed to parse resources JSON:''))
                (\<lambda>_. return_io JNull)
            | Parsed resourcesSummary \<Rightarrow>
                bind_io (effect updateSessionTimestamp) (\<lambda>_. return_io resourcesSummary)
            | NoText \<Rightarrow>
                bind_io (effect updateSessionTimestamp) (\<lambda>_. return_io JNull)))))
       (\<lambda>error. log_and_throw (''[API] Error finding '' @ resourceType @ '':'')
                   (''Failed to find '' @ resourceType) error)"

text \<open>
  \<open>geocode\<close> creates no session; its body has no \<open>session_id\<close> and its message no
  \<open>role\<close>. Whatever is thrown, \<open>JSON.parse\<close>'s error included, is logged and turned
  into \<open>null\<close>.
\<close>

definition geocode_body :: "string \<Rightarrow> json" where
  "geocode_body address =
     JObj [(''app_name'', JStr ''emergency_resources_agent''),
           (''user_id'', JStr ''user_001''),
           (''new_message'', JObj [(''parts'', JArr [text_part (''Geocode: '' @ address)])]),
           (''streaming'', JBool False)]"

definition geocode :: "parser \<Rightarrow> net \<Rightarrow> string \<Rightarrow> json io" where
  "geocode parse net address =
     try_catch
       (bind_io (post net EmergencyClient ''/run'' (geocode_body address))
        (\<lambda>data.
           (case parse_final parse data of
              NoText \<Rightarrow> return_io JNull
            | Parsed v \<Rightarrow> return_io v
            | ParseFailed text \<Rightarrow> throw_io (SyntaxError ''Unexpected token''))))
       (\<lambda>error. bind_io (effect (log_error ''[API] Error geocoding address:''))
                 (\<lambda>_. return_io JNull))"

definition getHistoricalData :: "net \<Rightarrow> string \<Rightarrow> string \<Rightarrow> query_result io" where
  "getHistoricalData net location eventType =
     query net (''Find historical '' @ eventType @ '' events in '' @ location)"

definition getVulnerablePopulations :: "net \<Rightarrow> string \<Rightarrow> query_result io" where
  "getVulnerablePopulations net location =
     query net (''Which census tracts in '' @ location
                @ '' have high elderly populations in flood zones?'')"

text \<open>\<open>getSevereWeatherEvents\<close> returns \<open>{hurricanes, alerts}\<close>, here a pair.\<close>

definition getSevereWeatherEvents :: "net \<Rightarrow> (query_result \<times> query_result) io" where
  "getSevereWeatherEvents net =
     try_catch
       (bind_io (query net ''What are the current active hurricanes or tropical storms?'')
        (\<lambda>hurricanesResponse. bind_io
           (query net (''What are the most severe weather alerts currently active ''
                       @ ''in the United States?''))
        (\<lambda>alertsResponse. return_io (hurricanesResponse, alertsResponse))))
       (\<lambda>error. bind_io (effect (log_error ''[API] Error fetching severe weather events:''))
                 (\<lambda>_. throw_io error))"

definition analyzeHurricaneImage :: "parser \<Rightarrow> net \<Rightarrow> image_file \<Rightarrow> json io" where
  "analyzeHurricaneImage parse net imageFile =
     try_catch
       (bind_io (create_session net HurricaneClient ''hurricane_simulation_agent'')
        (\<lambda>sessionId. bind_io (read_base64 imageFile)
        (\<lambda>imageBase64. bind_io
           (post net HurricaneClient ''/run''
              (run_body ''hurricane_simulation_agent'' sessionId
                 (user_message
                    [text_part
                       ''Analyze this hurricane image and provide evacuation priorities'',
                     image_part imageFile imageBase64])))
        (\<lambda>data. bind_io
           (case parse_final parse data of
              NoText \<Rightarrow> return_io JNull
            | Parsed v \<Rightarrow> return_io v
            | ParseFailed text \<Rightarrow>
                bind_io (effect (log_error ''[API] Failed to parse evacuation plan JSON:''))
                (\<lambda>_. return_io (JObj [(''raw_response'', text)])))
        (\<lambda>evacuationPlan. bind_io (effect updateSessionTimestamp)
        (\<lambda>_. return_io evacuationPlan))))))
       (log_and_throw ''[API] Error analyzing hurricane image:''
          ''Failed to analyze hurricane image'')"

definition getMapForZones :: "parser \<Rightarrow> net \<Rightarrow> string list \<Rightarrow> json io" where
  "getMapForZones parse net zones =
     try_catch
       (bind_io (create_session net MapClient ''weather_map_agent'')
        (\<lambda>sessionId. bind_io
           (post net MapClient ''/run''
              (run_body ''weather_map_agent'' sessionId
                 (user_message [text_part (''Generate a map for these zones: ''
                                            @ join '', '' zones)])))
        (\<lambda>data. bind_io
           (parsed_or_null parse ''[API] Failed to parse map data JSON:'' data)
        (\<lambda>mapData. bind_io (effect updateSessionTimestamp)
        (\<lambda>_. return_io mapData)))))
       (log_and_throw ''[API] Error getting map for zones:'' ''Failed to get map data'')"

subsection \<open>getSuggestedActions\<close>

text \<open>\<open>v.substring(0, n)\<close>: only a string has the method.\<close>

definition js_substring0 :: "json \<Rightarrow> nat \<Rightarrow> js_error + string" where
  "js_substring0 v n =
     (case v of
        JStr s \<Rightarrow> Inr (take n s)
      | _ \<Rightarrow>
          if nullish v then Inl (TypeError (''Cannot read properties of '' @ js_to_string v))
          else Inl (TypeError ''substring is not a function''))"

definition suggestion_prompt :: "string \<Rightarrow> string \<Rightarrow> string" where
  "suggestion_prompt user assistant =
     join [newline]
       [''Based on this conversation:'',
        ''User: '' @ user,
        ''Assistant: '' @ assistant @ ''...'',
        [],
        ''Generate exactly 4 contextual follow-up questions the user might want to ask next. '',
        ''- Make them specific and actionable'',
        ''- Include the same location/context from the conversation'',
        ''- Format as a simple list, one per line'',
        ''- No numbering, bullets, or extra text'',
        ''- Each should be a complete, ready-to-send question'',
        [],
        ''Example format:'',
        ''Show me the hourly forecast for Miami'',
        ''Are there any weather alerts in Miami?'',
        ''Find emergency shelters near Miami'',
        ''What'' @ [CHR 0x27] @ ''s the extended forecast for Miami?'']"

text \<open>\<open>s.trim()\<close>\<close>

definition js_trim :: "string \<Rightarrow> string" where
  "js_trim s = rev (dropWhile is_js_space (rev (dropWhile is_js_space s)))"

text \<open>
  \<open>line.match(/^(here|based|example|format)/i)\<close>: the line starts with one of the
  four words, letters compared without case.
\<close>

definition to_lower :: "char \<Rightarrow> char" where
  "to_lower c = tr_char class_upper class_lower c"

definition starts_with_ci :: "string \<Rightarrow> string \<Rightarrow> bool" where
  "starts_with_ci line word = (map to_lower (take (length word) line) = word)"

definition is_heading :: "string \<Rightarrow> bool" where
  "is_heading line =
     list_ex (starts_with_ci line) [''here'', ''based'', ''example'', ''format'']"

definition parse_suggestions :: "string \<Rightarrow> string list" where
  "parse_suggestions text =
     take 4 (filter (\<lambda>line. length line > 0 \<and> \<not> is_heading line)
               (map js_trim (split_on newline text)))"

definition getSuggestedActions :: "net \<Rightarrow> json \<Rightarrow> json \<Rightarrow> string list io" where
  "getSuggestedActions net lastUserQuery lastAgentResponse =
     try_catch
       (bind_io (lift (js_substring0 lastAgentResponse 500))
        (\<lambda>assistant. bind_io
           (query net (suggestion_prompt (js_to_string lastUserQuery) assistant))
        (\<lambda>response.
           if content response \<noteq> [] then return_io (parse_suggestions (content response))
           else return_io [])))
       (\<lambda>error. bind_io (effect (log_error ''[API] Error getting suggested actions:''))
                 (\<lambda>_. return_io []))"

text \<open>For examples: a reply of the chat agent to the prompt for suggestions.\<close>

definition suggestions_text :: string where
  "suggestions_text =
     join [newline]
       [''Here are some ideas:'', ''  Show me the radar  '', [], ''FORMAT: list'',
        ''Any alerts in Tampa?'', ''Find shelters'', ''Forecast for Tampa'', ''One more'']"

definition suggestions_reply :: json where
  "suggestions_reply =
     JArr [JObj [(''content'', JObj [(''parts'', JArr [text_part suggestions_text])])]]"

subsection \<open>Requests and failures, in the words of the interface\<close>

text \<open>
  A body carries a field when it is an object with that field and the value is not
  \<open>undefined\<close> (a field that is \<open>undefined\<close> is left out when the body is sent).
\<close>

definition carries :: "json \<Rightarrow> string \<Rightarrow> bool" where
  "carries b k =
     (case b of
        JObj kvs \<Rightarrow> (case map_of kvs k of Some v \<Rightarrow> v \<noteq> JUndefined | None \<Rightarrow> False)
      | _ \<Rightarrow> False)"

text \<open>The requests an operation sent, and a request whose body is built by \<open>run_body\<close>.\<close>

definition sent :: "world \<Rightarrow> (js_error + 'a) \<times> world \<Rightarrow> request list" where
  "sent w x = drop (length (requests w)) (requests (snd x))"

definition run_shaped :: "request \<Rightarrow> bool" where
  "run_shaped r =
     (\<exists>app sessionId parts. body r = run_body app sessionId (user_message parts))"

text \<open>
  A network given by its answer to the creation of a session and its answer to
  \<open>/run\<close>.
\<close>

definition two_step :: "http_outcome \<Rightarrow> http_outcome \<Rightarrow> net" where
  "two_step sess run n r = (if path r = ''/run'' then run else sess)"

text \<open>How an operation ended: it threw, or returned, and the label was logged.\<close>

definition thrown_logged :: "(js_error + 'a) \<times> world \<Rightarrow> js_error \<Rightarrow> string \<Rightarrow> bool" where
  "thrown_logged x err label = (fst x = Inl err \<and> label \<in> set (console_error (snd x)))"

definition returned_logged :: "(js_error + 'a) \<times> world \<Rightarrow> 'a \<Rightarrow> string \<Rightarrow> bool" where
  "returned_logged x v label = (fst x = Inr v \<and> label \<in> set (console_error (snd x)))"

text \<open>
  For examples: \<open>JSON.parse\<close> on texts made of letters only, of which just the three
  literals are JSON; a reply whose final text is such a text and not JSON; a server
  error.
\<close>

definition parse_word :: parser where
  "parse_word s =
     (if s = ''null'' then Some JNull
      else if s = ''true'' then Some (JBool True)
      else if s = ''false'' then Some (JBool False)
      else None)"

definition unparsable_reply :: json where
  "unparsable_reply = JArr [JObj [(''content'', JObj [(''parts'', JArr [text_part ''sunny''])])]]"

definition server_error :: js_error where
  "server_error = AxiosError ''Request failed'' (Some (500, JObj []))"

section \<open>Properties of the guided tour\<close>

lemma length_tourSteps: "length tourSteps = 12"
  by (simp add: tourSteps_def)

text \<open>
  Called on a provider with nothing queued and a rendered step within bounds, an
  operation leaves the pending step within bounds; the render that follows shows it.
\<close>

lemma click_keeps_bounds:
  assumes "step_in_bounds s" and "settled s"
  shows "step_in_bounds (render (tour_apply s x)) \<and> settled (render (tour_apply s x))"
  using assms
  by (cases x)
     (simp_all add: step_in_bounds_def settled_def render_def length_tourSteps startTour_def
        nextStep_def previousStep_def skipTour_def completeTour_def resetTour_def)

lemma clicks_Cons: "clicks (x # ops) = Call x # Render # clicks ops"
  by (simp add: clicks_def)

lemma foldl_clicks_keep_bounds:
  "step_in_bounds s \<Longrightarrow> settled s \<Longrightarrow>
     step_in_bounds (foldl tour_handle s (clicks ops)) \<and> settled (foldl tour_handle s (clicks ops))"
proof (induction ops arbitrary: s)
  case Nil
  then show ?case by (simp add: clicks_def)
next
  case (Cons x ops)
  from Cons.prems have "step_in_bounds (render (tour_apply s x))"
    and "settled (render (tour_apply s x))"
    using click_keeps_bounds by blast+
  then show ?case
    using Cons.IH by (simp add: clicks_Cons)
qed

lemma tour_run_clicks_in_bounds:
  "step_in_bounds (tour_run ls (clicks ops)) \<and> settled (tour_run ls (clicks ops))"
  unfolding tour_run_def
  by (rule foldl_clicks_keep_bounds)
     (simp_all add: step_in_bounds_def settled_def tour_init_def length_tourSteps)

text \<open>
  Claim C8, as stated: \<open>currentStep\<close> stays between 0 and \<open>tourSteps.length - 1\<close>
  under every sequence of the operations, so that \<open>getCurrentStep\<close> always returns a
  step. Two calls of \<open>nextStep\<close> made by the operations of one render at step 10
  both pass the guard, which reads the rendered 10: the next render shows step 12
  and \<open>getCurrentStep\<close> returns \<open>undefined\<close>. Two calls of \<open>previousStep\<close> in
  one render at step 1 give step -1.
\<close>

theorem currentStep_bounds_counterexample:
  "currentStep (rendered (tour_run []
       (clicks [StartTour, NextStep, NextStep, NextStep, NextStep, NextStep, NextStep,
                NextStep, NextStep, NextStep, NextStep]
        @ [Call NextStep, Call NextStep, Render]))) = 12
   \<and> getCurrentStep (tour_run []
       (clicks [StartTour, NextStep, NextStep, NextStep, NextStep, NextStep, NextStep,
                NextStep, NextStep, NextStep, NextStep]
        @ [Call NextStep, Call NextStep, Render])) = None
   \<and> currentStep (rendered (tour_run []
       (clicks [StartTour, NextStep] @ [Call PreviousStep, Call PreviousStep, Render]))) = - 1"
  by (simp add: tour_run_def clicks_def tour_init_def getItem_def render_def startTour_def
      nextStep_def previousStep_def completeTour_def getCurrentStep_def length_tourSteps)

text \<open>
  Claim C8, amended. Under every sequence of \<open>startTour\<close>, \<open>nextStep\<close>,
  \<open>previousStep\<close>, \<open>skipTour\<close>, \<open>completeTour\<close> and \<open>resetTour\<close> in which the
  provider renders after each operation, started from the provider's initial state
  over any \<open>localStorage\<close>: \<open>currentStep\<close> is at least 0 and at most
  \<open>tourSteps.length - 1\<close>, and \<open>getCurrentStep\<close> returns the step at that index.
  \<open>previousStep\<close> called where the rendered step is 0 leaves the state unchanged.
  \<open>nextStep\<close> called where the rendered step is the last one deactivates the tour,
  resets \<open>currentStep\<close> to 0, sets \<open>hasCompletedTour\<close> and stores
  \<open>tourCompleted = 'true'\<close> in \<open>localStorage\<close>.
\<close>

theorem tour_currentStep_bounded:
  fixes ls :: storage and ops :: "tour_op list" and s :: tour_state
  shows "0 \<le> currentStep (rendered (tour_run ls (clicks ops)))
    \<and> currentStep (rendered (tour_run ls (clicks ops))) \<le> int (length tourSteps) - 1
    \<and> getCurrentStep (tour_run ls (clicks ops))
        = Some (tourSteps ! nat (currentStep (rendered (tour_run ls (clicks ops)))))
    \<and> previousStep (s\<lparr>rendered := (rendered s)\<lparr>currentStep := 0\<rparr>\<rparr>)
        = s\<lparr>rendered := (rendered s)\<lparr>currentStep := 0\<rparr>\<rparr>
    \<and> nextStep (s\<lparr>rendered := (rendered s)\<lparr>currentStep := int (length tourSteps) - 1\<rparr>\<rparr>)
        = s\<lparr>rendered := (rendered s)\<lparr>currentStep := int (length tourSteps) - 1\<rparr>,
            pending := (pending s)\<lparr>isTourActive := False, currentStep := 0,
                                    hasCompletedTour := True\<rparr>,
            tour_ls := setItem (tour_ls s) ''tourCompleted'' ''true''\<rparr>
    \<and> rendered (render (nextStep
          (s\<lparr>rendered := (rendered s)\<lparr>currentStep := int (length tourSteps) - 1\<rparr>\<rparr>)))
        = (pending s)\<lparr>isTourActive := False, currentStep := 0, hasCompletedTour := True\<rparr>
    \<and> getItem (tour_ls (nextStep
          (s\<lparr>rendered := (rendered s)\<lparr>currentStep := int (length tourSteps) - 1\<rparr>\<rparr>)))
        ''tourCompleted'' = Some ''true''"
proof -
  have b: "step_in_bounds (tour_run ls (clicks ops))"
    using tour_run_clicks_in_bounds by blast
  then have lo: "0 \<le> currentStep (rendered (tour_run ls (clicks ops)))"
    and hi: "currentStep (rendered (tour_run ls (clicks ops))) \<le> int (length tourSteps) - 1"
    by (simp_all add: step_in_bounds_def)
  from lo hi have cur: "getCurrentStep (tour_run ls (clicks ops))
      = Some (tourSteps ! nat (currentStep (rendered (tour_run ls (clicks ops)))))"
    by (simp add: getCurrentStep_def)
  have prev: "previousStep (s\<lparr>rendered := (rendered s)\<lparr>currentStep := 0\<rparr>\<rparr>)
      = s\<lparr>rendered := (rendered s)\<lparr>currentStep := 0\<rparr>\<rparr>"
    by (simp add: previousStep_def)
  have nxt: "nextStep (s\<lparr>rendered := (rendered s)\<lparr>currentStep := int (length tourSteps) - 1\<rparr>\<rparr>)
      = s\<lparr>rendered := (rendered s)\<lparr>currentStep := int (length tourSteps) - 1\<rparr>,
          pending := (pending s)\<lparr>isTourActive := False, currentStep := 0,
                                  hasCompletedTour := True\<rparr>,
          tour_ls := setItem (tour_ls s) ''tourCompleted'' ''true''\<rparr>"
    by (simp add: nextStep_def completeTour_def)
  have stored: "getItem (setItem (tour_ls s) ''tourCompleted'' ''true'') ''tourCompleted''
      = Some ''true''"
    by (simp add: getItem_def setItem_def update_conv')
  from lo hi cur prev nxt stored show ?thesis
    by (simp add: render_def)
qed

text \<open>The start of a tour and two steps forward, each followed by a render.\<close>

theorem tour_currentStep_bounded_witness:
  "currentStep (rendered (tour_run [] (clicks [StartTour, NextStep, NextStep]))) = 2
   \<and> getCurrentStep (tour_run [] (clicks [StartTour, NextStep, NextStep]))
       = Some (tourSteps ! 2)"
  using tour_currentStep_bounded [of "[]" "[StartTour, NextStep, NextStep]"]
  by (simp add: tour_run_def clicks_def tour_init_def getItem_def render_def startTour_def
      nextStep_def length_tourSteps)

section \<open>Properties of the session check\<close>

text \<open>
  Claim C9, as stated: \<open>isSessionValid\<close> returns false if a key is absent or the
  timestamp parses to a number more than 1,800,000 ms before now, and true in every
  other case. It fails when a key is present but holds the empty string: an empty
  session id with a fresh timestamp is neither absent nor expired, yet the check
  returns false.
\<close>

theorem isSessionValid_empty_id_counterexample:
  "\<not> isSessionValid
        [(SESSION_STORAGE_KEY, []), (SESSION_TIMESTAMP_KEY, ''1000'')] 1000
   \<and> getItem [(SESSION_STORAGE_KEY, []), (SESSION_TIMESTAMP_KEY, ''1000'')]
        SESSION_STORAGE_KEY \<noteq> None
   \<and> getItem [(SESSION_STORAGE_KEY, []), (SESSION_TIMESTAMP_KEY, ''1000'')]
        SESSION_TIMESTAMP_KEY \<noteq> None
   \<and> parseInt10 ''1000'' = Num 1000
   \<and> \<not> (1000 - 1000 > SESSION_TIMEOUT)"
  by (simp add: isSessionValid_def getItem_def truthy_item_def SESSION_STORAGE_KEY_def
      SESSION_TIMESTAMP_KEY_def SESSION_TIMEOUT_def parseInt10_def is_js_space_def
      is_digit_def dec_value_def digit_val_def)

text \<open>
  Claim C9, amended: \<open>isSessionValid\<close> returns false if either key is absent or holds
  the empty string, or the stored timestamp parses to a number more than 1,800,000 ms
  before the current time; in every other case, including a timestamp that
  \<open>parseInt\<close> turns into \<open>NaN\<close>, it returns true.
\<close>

theorem isSessionValid_iff:
  "isSessionValid ls now \<longleftrightarrow>
     (\<exists>sid ts. getItem ls SESSION_STORAGE_KEY = Some sid \<and> sid \<noteq> []
        \<and> getItem ls SESSION_TIMESTAMP_KEY = Some ts \<and> ts \<noteq> []
        \<and> (parseInt10 ts = NaN
            \<or> (\<exists>n. parseInt10 ts = Num n \<and> now - n \<le> 1800000)))"
proof (cases "getItem ls SESSION_STORAGE_KEY")
  case None
  then show ?thesis
    by (simp add: isSessionValid_def truthy_item_def)
next
  case sid: (Some sid)
  show ?thesis
  proof (cases "getItem ls SESSION_TIMESTAMP_KEY")
    case None
    with sid show ?thesis
      by (simp add: isSessionValid_def truthy_item_def)
  next
    case ts: (Some ts)
    show ?thesis
    proof (cases "parseInt10 ts")
      case NaN
      with sid ts show ?thesis
        by (auto simp add: isSessionValid_def truthy_item_def)
    next
      case (Num n)
      with sid ts show ?thesis
        by (auto simp add: isSessionValid_def truthy_item_def SESSION_TIMEOUT_def)
    qed
  qed
qed

theorem isSessionValid_iff_witness:
  "isSessionValid [(SESSION_STORAGE_KEY, ''s1''), (SESSION_TIMESTAMP_KEY, ''corrupt'')] 5000
   \<and> isSessionValid [(SESSION_STORAGE_KEY, ''s1''), (SESSION_TIMESTAMP_KEY, ''1000'')] 1801000
   \<and> \<not> isSessionValid [(SESSION_STORAGE_KEY, ''s1''), (SESSION_TIMESTAMP_KEY, ''1000'')]
         1801001"
  using
    isSessionValid_iff
      [of "[(SESSION_STORAGE_KEY, ''s1''), (SESSION_TIMESTAMP_KEY, ''corrupt'')]" 5000]
    isSessionValid_iff
      [of "[(SESSION_STORAGE_KEY, ''s1''), (SESSION_TIMESTAMP_KEY, ''1000'')]" 1801000]
    isSessionValid_iff
      [of "[(SESSION_STORAGE_KEY, ''s1''), (SESSION_TIMESTAMP_KEY, ''1000'')]" 1801001]
  by (simp add: getItem_def SESSION_STORAGE_KEY_def SESSION_TIMESTAMP_KEY_def parseInt10_def
      is_js_space_def is_digit_def dec_value_def digit_val_def)

section \<open>Properties of the deployment script\<close>

subsection \<open>The env file line\<close>





















subsection \<open>The exit status\<close>

text \<open>
  With \<open>set -e\<close> applied to \<open>((...))\<close>, the first \<open>((success_count++))\<close> or
  \<open>((failed_count++))\<close> evaluates to 0, returns status 1 and ends the script: with at
  least one agent the script exits 1 before it prints a summary, whatever the jobs did.
\<close>

lemma wait_loop_errexit_first:
  "wait_loop True (status # rest) \<lparr>success_count = 0, failed_count = 0\<rparr> = Exited 1"
  by (simp add: post_incr_status_def)

lemma wait_and_report_errexit:
  "wait_and_report True (status # rest) = \<lparr>exit_status = 1, summary = None\<rparr>"
  by (simp add: wait_and_report_def post_incr_status_def)

text \<open>
  Claim C3 says that the script exits zero when all agents in \<open>AGENTS_TO_DEPLOY\<close>
  deployed successfully and that it reports counts that sum to the number of agents.
  Evaluated for six jobs that all exit 0: the script exits with status 1 and prints no
  summary.
\<close>

theorem wait_and_report_all_succeeded:
  "wait_and_report True [0, 0, 0, 0, 0, 0] = \<lparr>exit_status = 1, summary = None\<rparr>"
  by (simp add: wait_and_report_def post_incr_status_def)

text \<open>
  Without \<open>set -e\<close> on \<open>((...))\<close> the loop counts every job: the exit status is 0
  exactly when every job succeeded, and the two counts sum to the number of jobs.
\<close>

lemma wait_loop_no_errexit:
  "wait_loop False statuses c
     = Running \<lparr>success_count = success_count c + int (length (filter (\<lambda>s. s = 0) statuses)),
                failed_count = failed_count c + int (length (filter (\<lambda>s. s \<noteq> 0) statuses))\<rparr>"
  by (induction statuses arbitrary: c) simp_all

lemma wait_and_report_no_errexit:
  "exit_status (wait_and_report False statuses) = (if list_all (\<lambda>s. s = 0) statuses then 0 else 1)
   \<and> (\<exists>ok bad. summary (wait_and_report False statuses) = Some (ok, bad, length statuses)
         \<and> ok + bad = int (length statuses))"
proof -
  have "length (filter (\<lambda>s. s \<noteq> 0) statuses) > 0 \<longleftrightarrow> \<not> list_all (\<lambda>s. s = 0) statuses"
    by (induction statuses) auto
  moreover have "length (filter (\<lambda>s. s = 0) statuses) + length (filter (\<lambda>s. s \<noteq> 0) statuses)
      = length statuses"
    using sum_length_filter_compl [of "\<lambda>s. s = 0" statuses] by simp
  ultimately show ?thesis
    by (auto simp add: wait_and_report_def wait_loop_no_errexit)
qed

subsection \<open>The lock directory\<close>

text \<open>
  A job alone, taking its three steps, does what \<open>deploy_agent\<close> does; and among
  concurrent jobs the only step that changes the env file is the append, which adds
  the job's own line.
\<close>

lemma single_job_is_deploy_agent:
  "deploy_agent \<lparr>env_production = [], dirs = {}\<rparr> name True out
     = Some (0, sys_fs (run_schedule (start_jobs [(name, cmd_subst out)]) [0, 0, 0]))"
  by (simp add: deploy_agent_def run_schedule_def start_jobs_def job_step_def Let_def)

lemma job_step_env_production:
  "env_production (sys_fs (job_step s i))
     = env_production (sys_fs s)
       @ (if i < length (jobs s) \<and> job_pc (jobs s ! i) = Appending
          then env_line (job_name (jobs s ! i)) (job_url (jobs s ! i)) else [])"
  by (simp add: job_step_def Let_def split: pc.splits)

text \<open>The lock directory is named after the service: two services never share one.\<close>

lemma lockfile_inj: "lockfile a = lockfile b \<longleftrightarrow> a = b"
  by (simp add: lockfile_def)

text \<open>
  Claim C7 says that the lock directory excludes the appends of any two concurrent
  jobs from each other. Evaluated for two of the script's services, each taking its
  first step: both \<open>mkdir\<close> calls succeed and both jobs stand between \<open>mkdir\<close> and
  \<open>rmdir\<close> at once, each about to append.
\<close>

theorem lock_directories_do_not_exclude:
  "holds_lock (jobs (run_schedule
       (start_jobs [(''weather-forecast-agent'', ''https://forecast.run.app''),
                    (''weather-chat-agent'', ''https://chat.run.app'')]) [0, 1]) ! 0)
   \<and> holds_lock (jobs (run_schedule
       (start_jobs [(''weather-forecast-agent'', ''https://forecast.run.app''),
                    (''weather-chat-agent'', ''https://chat.run.app'')]) [0, 1]) ! 1)"
  by (simp add: run_schedule_def start_jobs_def job_step_def holds_lock_def lockfile_def)

section \<open>Properties of query\<close>

subsection \<open>The returned content\<close>

lemma event_part_texts_wf:
  "list_all wf_part ps \<Longrightarrow> event_part_texts acc ps = Inr (acc @ concat (map part_text ps))"
proof (induction ps arbitrary: acc)
  case Nil
  then show ?case by simp
next
  case (Cons p ps)
  then show ?case
    by (auto simp add: wf_part_def part_text_def get_prop_def split: json.splits)
qed

lemma object_part_texts_wf:
  "list_all wf_part ps \<Longrightarrow> object_part_texts acc ps = Inr (acc @ concat (map part_text ps))"
proof (induction ps arbitrary: acc)
  case Nil
  then show ?case by simp
next
  case (Cons p ps)
  then show ?case
    by (auto simp add: wf_part_def part_text_def get_prop_def split: json.splits)
qed

lemma events_text_wf:
  "list_all wf_event evs \<Longrightarrow> events_text acc evs = Inr (acc @ concat (map texts_of evs))"
proof (induction evs arbitrary: acc)
  case Nil
  then show ?case by simp
next
  case (Cons ev evs)
  from Cons.prems have "wf_event ev" and rest: "list_all wf_event evs"
    by simp_all
  then have ev: "\<not> nullish ev" "wf_content (js_prop ev ''content'')"
    by (simp_all add: wf_event_def)
  show ?case
  proof (cases "opt_prop (js_prop ev ''content'') ''parts''")
    case (JArr ps)
    with ev have "list_all wf_part ps"
      by (simp add: wf_content_def)
    then have "event_part_texts acc ps = Inr (acc @ concat (map part_text ps))"
      by (rule event_part_texts_wf)
    with JArr ev rest show ?thesis
      by (simp add: get_prop_def Cons.IH texts_of_def content_parts_def)
  qed (use ev rest in \<open>simp_all add: get_prop_def wf_content_def Cons.IH texts_of_def content_parts_def\<close>)
qed

lemma response_text_array:
  "list_all wf_event evs \<Longrightarrow> response_text (JArr evs) = Inr (concat (map texts_of evs))"
  by (simp add: response_text_def events_text_wf)

lemma response_text_object:
  assumes "wf_content (lookup kvs ''content'')"
  shows "response_text (JObj kvs) = Inr (texts_of (JObj kvs))"
proof (cases "opt_prop (lookup kvs ''content'') ''parts''")
  case (JArr ps)
  with assms have "list_all wf_part ps"
    by (simp add: wf_content_def)
  then have "object_part_texts [] ps = Inr ([] @ concat (map part_text ps))"
    by (rule object_part_texts_wf)
  with JArr show ?thesis
    by (simp add: response_text_def get_prop_def nullish_def texts_of_def content_parts_def)
qed (use assms in \<open>simp_all add: response_text_def get_prop_def nullish_def wf_content_def
       texts_of_def content_parts_def\<close>)

lemma response_text_other:
  assumes "\<not> nullish data" and "\<forall>evs. data \<noteq> JArr evs"
    and "\<not> truthy (opt_prop (js_prop data ''content'') ''parts'')"
  shows "response_text data = Inr []"
  using assms by (cases data) (simp_all add: response_text_def get_prop_def nullish_def)

lemma response_text_null: "response_text JNull = Inl (TypeError ''Cannot read properties of null'')"
  by (simp add: response_text_def get_prop_def nullish_def)

lemma query_of_run_response:
  assumes "query_run_response net userQuery w = Some data"
    and "response_text data = Inr t"
  shows "\<exists>r. fst (query net userQuery w) = Inr r \<and> content r = t"
  using assms
  by (auto simp add: query_run_response_def query_def query_try_def try_catch_def bind_io_def
        lift_def effect_def return_io_def split: prod.splits sum.splits)


lemma returned_content_query:
  assumes "query_run_response net userQuery w = Some data"
    and "response_text data = Inr t"
  shows "returned_content (query net userQuery w) = Some t"
  using query_of_run_response [OF assms] by (auto simp add: returned_content_def)

text \<open>
  Claim C1, as stated, ends: in every other case the returned content is the empty
  string. The body \<open>null\<close> is such a case, and there \<open>data.content\<close> throws: the
  operation returns nothing and rethrows the error.
\<close>

theorem query_content_counterexample:
  "query_run_response (answering JNull) ''hi'' fresh_world = Some JNull
   \<and> returned_content (query (answering JNull) ''hi'' fresh_world) = None
   \<and> fst (query (answering JNull) ''hi'' fresh_world)
       = Inl (Error ''Cannot read properties of null'')"
  by (simp add: query_run_response_def query_def query_try_def try_catch_def bind_io_def
      lift_def effect_def return_io_def getOrCreateSession_def isSessionValid_def
      getItem_def truthy_item_def fresh_world_def post_def answering_def get_prop_def
      nullish_def response_text_def query_catch_def new_Error_def error_data_message_def
      or_else_def error_status_def returned_content_def)

text \<open>
  Claim C1, amended. For every response to the \<open>/run\<close> call of \<open>query\<close>: if the body
  is an array of well-formed events, the returned content is the in-order
  concatenation of the text fields of every part of every event's \<open>content.parts\<close>; if
  it is a single object whose \<open>content\<close> is well formed, the returned content is the
  concatenation of that object's part texts; if it is any other value that is neither
  an array nor \<open>null\<close> nor \<open>undefined\<close> and has no \<open>content.parts\<close>, the returned
  content is the empty string.
\<close>

theorem query_content:
  assumes "query_run_response net userQuery w = Some data"
  shows "(\<forall>evs. data = JArr evs \<longrightarrow> list_all wf_event evs \<longrightarrow>
            returned_content (query net userQuery w) = Some (concat (map texts_of evs)))
    \<and> (\<forall>kvs. data = JObj kvs \<longrightarrow> wf_content (lookup kvs ''content'') \<longrightarrow>
            returned_content (query net userQuery w) = Some (texts_of data))
    \<and> ((\<forall>evs. data \<noteq> JArr evs) \<longrightarrow> \<not> nullish data \<longrightarrow>
          \<not> truthy (opt_prop (js_prop data ''content'') ''parts'') \<longrightarrow>
            returned_content (query net userQuery w) = Some [])"
proof (intro conjI allI impI)
  fix evs
  assume "data = JArr evs" and "list_all wf_event evs"
  then have "response_text data = Inr (concat (map texts_of evs))"
    by (simp add: response_text_array)
  with assms show "returned_content (query net userQuery w) = Some (concat (map texts_of evs))"
    by (rule returned_content_query)
next
  fix kvs
  assume "data = JObj kvs" and "wf_content (lookup kvs ''content'')"
  then have "response_text data = Inr (texts_of data)"
    by (simp add: response_text_object)
  with assms show "returned_content (query net userQuery w) = Some (texts_of data)"
    by (rule returned_content_query)
next
  assume "\<forall>evs. data \<noteq> JArr evs" and "\<not> nullish data"
    and "\<not> truthy (opt_prop (js_prop data ''content'') ''parts'')"
  then have "response_text data = Inr []"
    by (simp add: response_text_other)
  with assms show "returned_content (query net userQuery w) = Some []"
    by (rule returned_content_query)
qed

lemma run_response_answering:
  "query_run_response (answering d) ''hi'' fresh_world = Some d"
  by (simp add: query_run_response_def bind_io_def
      lift_def effect_def return_io_def getOrCreateSession_def isSessionValid_def
      getItem_def truthy_item_def fresh_world_def post_def answering_def get_prop_def
      nullish_def)

theorem query_content_witness:
  "returned_content (query (answering two_events) ''hi'' fresh_world) = Some ''Hello, world''
   \<and> returned_content (query (answering one_object) ''hi'' fresh_world) = Some ''Hi!''
   \<and> returned_content (query (answering (JStr ''busy'')) ''hi'' fresh_world) = Some []"
proof -
  have a: "returned_content (query (answering two_events) ''hi'' fresh_world)
      = Some ''Hello, world''"
    using query_content [OF run_response_answering [of two_events]]
    by (simp add: two_events_def wf_event_def wf_content_def wf_part_def nullish_def
        opt_prop_def lookup_def text_part_def texts_of_def content_parts_def part_text_def)
  have b: "returned_content (query (answering one_object) ''hi'' fresh_world) = Some ''Hi!''"
    using query_content [OF run_response_answering [of one_object]]
    by (simp add: one_object_def wf_content_def wf_part_def nullish_def
        opt_prop_def lookup_def text_part_def texts_of_def content_parts_def part_text_def)
  have c: "returned_content (query (answering (JStr ''busy'')) ''hi'' fresh_world) = Some []"
    using query_content [OF run_response_answering [of "JStr ''busy''"]]
    by (simp add: nullish_def opt_prop_def)
  from a b c show ?thesis by simp
qed

subsection \<open>The state reset on an invalid session\<close>

lemma getItem_removeItem:
  "getItem (removeItem ls k') k = (if k = k' then None else getItem ls k)"
  by (auto simp add: getItem_def removeItem_def delete_conv)

lemma getItem_setItem:
  "getItem (setItem ls k' v) k = (if k = k' then Some v else getItem ls k)"
  by (simp add: getItem_def setItem_def update_conv')

lemma getItem_foldl_removeItem:
  "getItem (foldl removeItem ls ks) k = (if k \<in> set ks then None else getItem ls k)"
  by (induction ks arbitrary: ls) (auto simp add: getItem_removeItem)

lemma getItem_clearBrowserState:
  "getItem (localStorage (clearBrowserState w)) k
     = (if is_state_key k then None else getItem (localStorage w) k)"
proof (cases "k \<in> fst ` set (localStorage w)")
  case True
  then show ?thesis
    by (auto simp add: clearBrowserState_def Let_def getItem_foldl_removeItem)
next
  case False
  then have "getItem (localStorage w) k = None"
    by (simp add: getItem_def map_of_eq_None_iff)
  with False show ?thesis
    by (auto simp add: clearBrowserState_def Let_def getItem_foldl_removeItem)
qed

lemma clearBrowserState_rest:
  "sessionStorage (clearBrowserState w) = []"
  "''sessionExpired'' \<in> set (events (clearBrowserState w))"
  by (simp_all add: clearBrowserState_def Let_def)

lemma session_keys_are_state_keys:
  "is_state_key SESSION_STORAGE_KEY" "is_state_key SESSION_TIMESTAMP_KEY"
  by (simp_all add: is_state_key_def state_prefixes_def startsWith_def
      SESSION_STORAGE_KEY_def SESSION_TIMESTAMP_KEY_def)

lemma okk_refl: "other_keys_kept w w k"
  by (simp add: other_keys_kept_def)

lemma okk_trans:
  "other_keys_kept w w1 k \<Longrightarrow> other_keys_kept w1 w2 k \<Longrightarrow> other_keys_kept w w2 k"
  by (auto simp add: other_keys_kept_def)

lemma okk_post: "post net c p b w = (r, w') \<Longrightarrow> other_keys_kept w w' k"
  by (auto simp add: post_def Let_def other_keys_kept_def split: http_outcome.splits)

lemma okk_clear: "other_keys_kept w (clearBrowserState w) k"
  by (simp add: other_keys_kept_def getItem_clearBrowserState)

lemma okk_store: "other_keys_kept w (store_session sid w) k"
  using session_keys_are_state_keys
  by (auto simp add: other_keys_kept_def store_session_def getItem_setItem)

lemma okk_timestamp: "other_keys_kept w (updateSessionTimestamp w) k"
  using session_keys_are_state_keys
  by (auto simp add: other_keys_kept_def updateSessionTimestamp_def getItem_setItem)

lemma okk_getOrCreateSession:
  assumes "getOrCreateSession net w = (r, w')"
  shows "other_keys_kept w w' k"
proof (cases "isSessionValid (localStorage w) (clock w)")
  case True
  with assms show ?thesis
    by (auto simp add: getOrCreateSession_def okk_refl)
next
  case False
  define w1 where "w1 = (if truthy_item (getItem (localStorage w) SESSION_STORAGE_KEY)
                  then clearBrowserState w else w)"
  have a: "other_keys_kept w w1 k"
    by (simp add: w1_def okk_clear okk_refl)
  obtain r2 w2 where p: "post net ChatClient ''/apps/chat/users/user_001/sessions''
                (JObj [(''state'', JObj [])]) w1 = (r2, w2)"
    by (cases "post net ChatClient ''/apps/chat/users/user_001/sessions''
                (JObj [(''state'', JObj [])]) w1") blast
  then have b: "other_keys_kept w1 w2 k"
    by (rule okk_post)
  have "w' = w2 \<or> (\<exists>sid. w' = store_session sid w2)"
    using assms False p
    by (auto simp add: getOrCreateSession_def w1_def [symmetric] bind_io_def lift_def effect_def
          return_io_def Let_def split: sum.splits)
  then have "other_keys_kept w2 w' k"
    using okk_store okk_refl by auto
  with a b show ?thesis
    by (blast intro: okk_trans)
qed


lemma okk_bind:
  assumes "bind_io m f w = (r, w')"
    and "\<And>r1 w1. m w = (r1, w1) \<Longrightarrow> other_keys_kept w w1 k"
    and "\<And>a w1 r2 w2. f a w1 = (r2, w2) \<Longrightarrow> other_keys_kept w1 w2 k"
  shows "other_keys_kept w w' k"
proof (cases "m w")
  case (Pair r1 w1)
  then have a: "other_keys_kept w w1 k"
    by (rule assms(2))
  show ?thesis
  proof (cases r1)
    case (Inl e)
    with Pair assms(1) have "w' = w1"
      by (simp add: bind_io_def)
    with a show ?thesis by simp
  next
    case (Inr x)
    with Pair assms(1) have "f x w1 = (r, w')"
      by (simp add: bind_io_def)
    then have "other_keys_kept w1 w' k"
      by (rule assms(3))
    with a show ?thesis
      by (rule okk_trans)
  qed
qed

lemma okk_lift: "lift x w = (r, w') \<Longrightarrow> other_keys_kept w w' k"
  by (auto simp add: lift_def okk_refl)

lemma okk_return: "return_io x w = (r, w') \<Longrightarrow> other_keys_kept w w' k"
  by (auto simp add: return_io_def okk_refl)

lemma okk_effect_timestamp:
  "effect updateSessionTimestamp w = (r, w') \<Longrightarrow> other_keys_kept w w' k"
  by (auto simp add: effect_def okk_timestamp)

lemma okk_read_base64: "read_base64 f w = (r, w') \<Longrightarrow> other_keys_kept w w' k"
  by (auto simp add: read_base64_def lift_def okk_refl)

lemma okk_query_try:
  assumes "query_try net userQuery w = (r, w')"
  shows "other_keys_kept w w' k"
  using assms unfolding query_try_def
  by (elim okk_bind okk_getOrCreateSession okk_post okk_lift okk_effect_timestamp okk_return)

lemma okk_queryWithImage_try:
  assumes "queryWithImage_try net userQuery imageFile w = (r, w')"
  shows "other_keys_kept w w' k"
  using assms unfolding queryWithImage_try_def
  by (elim okk_bind okk_getOrCreateSession okk_post okk_lift okk_effect_timestamp okk_return
      okk_read_base64)

lemma query_catch_reset:
  assumes "error_status e = Some 401 \<or> error_status e = Some 404"
    and "other_keys_kept w w1 k"
  shows "fst (query_catch fallback e w1) = Inl (new_Error e fallback)
    \<and> reset_after w (snd (query_catch fallback e w1)) k"
proof -
  have q: "query_catch fallback e w1
      = (Inl (new_Error e fallback), clearBrowserState (log_error ''[API] Error details:'' w1))"
    using assms(1) by (auto simp add: query_catch_def Let_def)
  have "localStorage (log_error ''[API] Error details:'' w1) = localStorage w1"
    by (simp add: log_error_def)
  then have "getItem (localStorage (clearBrowserState (log_error ''[API] Error details:'' w1))) k
      = (if is_state_key k then None else getItem (localStorage w1) k)"
    by (simp add: getItem_clearBrowserState)
  with assms(2) show ?thesis
    by (auto simp add: q reset_after_def clearBrowserState_rest other_keys_kept_def)
qed

text \<open>
  Claim C2, amended. When the \<open>try\<close> block of \<open>query\<close> or \<open>queryWithImage\<close> fails
  with an HTTP error response of status 401 or 404, the operation rethrows an
  \<open>Error\<close>, and before that: all of \<open>sessionStorage\<close> is cleared, every
  \<open>localStorage\<close> key that starts with \<open>dashboard\<close>, \<open>weather_agent\<close>, \<open>chat\<close>,
  \<open>forecast\<close>, \<open>risk\<close> or \<open>emergency\<close> is removed, every other key keeps the
  value it had, and \<open>sessionExpired\<close> is dispatched.
\<close>

theorem session_invalid_resets_state:
  "(query_try net userQuery w = (Inl e, w1) \<longrightarrow>
      (error_status e = Some 401 \<or> error_status e = Some 404) \<longrightarrow>
        fst (query net userQuery w) = Inl (new_Error e ''Failed to query agent'')
        \<and> reset_after w (snd (query net userQuery w)) k)
   \<and> (queryWithImage_try net userQuery imageFile w = (Inl e, w1) \<longrightarrow>
      (error_status e = Some 401 \<or> error_status e = Some 404) \<longrightarrow>
        fst (queryWithImage net userQuery imageFile w)
          = Inl (new_Error e ''Failed to query agent with image'')
        \<and> reset_after w (snd (queryWithImage net userQuery imageFile w)) k)"
proof (intro conjI impI)
  assume t: "query_try net userQuery w = (Inl e, w1)"
    and s: "error_status e = Some 401 \<or> error_status e = Some 404"
  from t have "other_keys_kept w w1 k"
    by (rule okk_query_try)
  with s have "fst (query_catch ''Failed to query agent'' e w1)
        = Inl (new_Error e ''Failed to query agent'')
      \<and> reset_after w (snd (query_catch ''Failed to query agent'' e w1)) k"
    by (rule query_catch_reset)
  moreover have "query net userQuery w = query_catch ''Failed to query agent'' e w1"
    using t by (simp add: query_def try_catch_def)
  ultimately show "fst (query net userQuery w) = Inl (new_Error e ''Failed to query agent'')"
    and "reset_after w (snd (query net userQuery w)) k"
    by simp_all
next
  assume t: "queryWithImage_try net userQuery imageFile w = (Inl e, w1)"
    and s: "error_status e = Some 401 \<or> error_status e = Some 404"
  from t have "other_keys_kept w w1 k"
    by (rule okk_queryWithImage_try)
  with s have "fst (query_catch ''Failed to query agent with image'' e w1)
        = Inl (new_Error e ''Failed to query agent with image'')
      \<and> reset_after w (snd (query_catch ''Failed to query agent with image'' e w1)) k"
    by (rule query_catch_reset)
  moreover have "queryWithImage net userQuery imageFile w
      = query_catch ''Failed to query agent with image'' e w1"
    using t by (simp add: queryWithImage_def try_catch_def)
  ultimately show "fst (queryWithImage net userQuery imageFile w)
        = Inl (new_Error e ''Failed to query agent with image'')"
    and "reset_after w (snd (queryWithImage net userQuery imageFile w)) k"
    by simp_all
qed


lemmas eval_defs =
  query_def query_try_def queryWithImage_def queryWithImage_try_def try_catch_def bind_io_def
  lift_def effect_def return_io_def getOrCreateSession_def isSessionValid_def
  getItem_def truthy_item_def post_def get_prop_def nullish_def query_catch_def new_Error_def
  error_data_message_def or_else_def error_status_def opt_prop_def lookup_def
  read_base64_def

text \<open>
  Claim C2, as stated: on a 401 or 404 every \<open>localStorage\<close> key is cleared before
  the error is rethrown. With \<open>/run\<close> answered by 404, \<open>query\<close> rethrows and
  dispatches \<open>sessionExpired\<close>, and the key \<open>tourCompleted\<close> is still stored.
\<close>

theorem state_reset_counterexample:
  "fst (query (run_rejecting 404) ''hi'' visited_world) = Inl (Error ''Request failed'')
   \<and> ''sessionExpired'' \<in> set (events (snd (query (run_rejecting 404) ''hi'' visited_world)))
   \<and> getItem (localStorage (snd (query (run_rejecting 404) ''hi'' visited_world)))
        ''tourCompleted'' = Some ''true''"
  by (simp add: eval_defs run_rejecting_def visited_world_def clearBrowserState_def
      log_error_def store_session_def setItem_def removeItem_def is_state_key_def
      state_prefixes_def startsWith_def SESSION_STORAGE_KEY_def SESSION_TIMESTAMP_KEY_def)

theorem session_invalid_resets_state_witness:
  "reset_after visited_world (snd (query (run_rejecting 404) ''hi'' visited_world))
      ''dashboardAlerts''
   \<and> reset_after visited_world
        (snd (queryWithImage (run_rejecting 401) ''hi'' png visited_world)) ''tourCompleted''"
proof -
  have a: "query_try (run_rejecting 404) ''hi'' visited_world
      = (Inl (AxiosError ''Request failed'' (Some (404, JObj []))),
         snd (query_try (run_rejecting 404) ''hi'' visited_world))"
    by (simp add: prod_eq_iff eval_defs run_rejecting_def visited_world_def)
  have b: "queryWithImage_try (run_rejecting 401) ''hi'' png visited_world
      = (Inl (AxiosError ''Request failed'' (Some (401, JObj []))),
         snd (queryWithImage_try (run_rejecting 401) ''hi'' png visited_world))"
    by (simp add: prod_eq_iff eval_defs run_rejecting_def visited_world_def png_def)
  from a have "reset_after visited_world
      (snd (query (run_rejecting 404) ''hi'' visited_world)) ''dashboardAlerts''"
    using session_invalid_resets_state
      [of "run_rejecting 404" "''hi''" visited_world
          "AxiosError ''Request failed'' (Some (404, JObj []))"
          "snd (query_try (run_rejecting 404) ''hi'' visited_world)" "''dashboardAlerts''"]
    by (simp add: error_status_def)
  moreover from b have "reset_after visited_world
      (snd (queryWithImage (run_rejecting 401) ''hi'' png visited_world)) ''tourCompleted''"
    using session_invalid_resets_state
      [of "run_rejecting 401" "''hi''" visited_world
          "AxiosError ''Request failed'' (Some (401, JObj []))" _ "''tourCompleted''" png]
    by (simp add: error_status_def)
  ultimately show ?thesis by simp
qed

section \<open>Properties of getSuggestedActions\<close>

lemma parse_suggestions_length: "length (parse_suggestions text) \<le> 4"
  by (simp add: parse_suggestions_def)

lemma parse_suggestions_elem:
  assumes "s \<in> set (parse_suggestions text)"
  shows "s \<noteq> [] \<and> \<not> is_heading s \<and> (\<exists>line \<in> set (split_on newline text). s = js_trim line)"
proof -
  from assms have "s \<in> set (filter (\<lambda>line. length line > 0 \<and> \<not> is_heading line)
               (map js_trim (split_on newline text)))"
    unfolding parse_suggestions_def by (rule in_set_takeD)
  then show ?thesis by auto
qed

lemma getSuggestedActions_not_string:
  assumes "\<forall>resp. a \<noteq> JStr resp"
  shows "fst (getSuggestedActions net u a w) = Inr []"
  using assms
  by (cases a)
     (simp_all add: getSuggestedActions_def try_catch_def bind_io_def lift_def js_substring0_def
        effect_def return_io_def nullish_def)

lemma getSuggestedActions_string:
  "fst (getSuggestedActions net u (JStr resp) w)
     = Inr (case fst (query net (suggestion_prompt (js_to_string u) (take 500 resp)) w) of
              Inl e \<Rightarrow> []
            | Inr r \<Rightarrow> if content r \<noteq> [] then parse_suggestions (content r) else [])"
  by (auto simp add: getSuggestedActions_def try_catch_def bind_io_def lift_def
        js_substring0_def effect_def return_io_def split: prod.splits sum.splits)


lemma js_trim_ends:
  assumes "js_trim line \<noteq> []"
  shows "\<not> is_js_space (hd (js_trim line)) \<and> \<not> is_js_space (last (js_trim line))"
proof -
  define t where "t = dropWhile is_js_space line"
  define x where "x = js_trim line"
  have x: "x = rev (dropWhile is_js_space (rev t))"
    by (simp add: x_def t_def js_trim_def)
  from assms have ne: "dropWhile is_js_space (rev t) \<noteq> []"
    by (simp add: x x_def [symmetric])
  have "last x = hd (dropWhile is_js_space (rev t))"
    using ne by (simp add: x last_rev)
  with ne have l: "\<not> is_js_space (last x)"
    by (simp add: hd_dropWhile)
  have "rev (rev t) = rev (takeWhile is_js_space (rev t) @ dropWhile is_js_space (rev t))"
    by (simp only: takeWhile_dropWhile_id)
  then have t: "t = x @ rev (takeWhile is_js_space (rev t))"
    by (simp only: rev_rev_ident rev_append x)
  from assms have "x \<noteq> []"
    by (simp add: x_def)
  with t have "hd t = hd x" and "t \<noteq> []"
    by (metis hd_append2, metis append_is_Nil_conv)
  then have "\<not> is_js_space (hd x)"
    using hd_dropWhile [of is_js_space line] by (simp add: t_def)
  with l show ?thesis
    by (simp add: x_def)
qed

text \<open>
  Claim C10. \<open>getSuggestedActions\<close> always returns an array, of at most 4 strings;
  each is non-empty, has no white space at either end and does not begin, letters
  compared without case, with \<open>here\<close>, \<open>based\<close>, \<open>example\<close> or \<open>format\<close>. When the
  underlying \<open>query\<close> returns, each string is the trimmed form of a line of the returned
  content. When \<open>query\<close> throws or returns an empty content, and when the prompt
  cannot be built because the last response is not a string, the result is the empty
  array: no error is propagated.
\<close>

theorem getSuggestedActions_result:
  "\<exists>xs. fst (getSuggestedActions net u a w) = Inr xs
     \<and> length xs \<le> 4
     \<and> (\<forall>s\<in>set xs. s \<noteq> [] \<and> \<not> is_js_space (hd s) \<and> \<not> is_js_space (last s)
            \<and> \<not> is_heading s)
     \<and> (\<forall>resp r. a = JStr resp \<longrightarrow>
           fst (query net (suggestion_prompt (js_to_string u) (take 500 resp)) w) = Inr r \<longrightarrow>
             (\<forall>s\<in>set xs. \<exists>line\<in>set (split_on newline (content r)). s = js_trim line)
             \<and> (content r = [] \<longrightarrow> xs = []))
     \<and> (\<forall>resp e. a = JStr resp \<longrightarrow>
           fst (query net (suggestion_prompt (js_to_string u) (take 500 resp)) w) = Inl e \<longrightarrow>
             xs = [])
     \<and> ((\<forall>resp. a \<noteq> JStr resp) \<longrightarrow> xs = [])"
proof (cases "\<exists>resp. a = JStr resp")
  case False
  then have "fst (getSuggestedActions net u a w) = Inr []"
    by (simp add: getSuggestedActions_not_string)
  with False show ?thesis
    by simp
next
  case True
  then obtain resp where a: "a = JStr resp"
    by blast
  define q where "q = fst (query net (suggestion_prompt (js_to_string u) (take 500 resp)) w)"
  define xs where "xs = (case q of Inl e \<Rightarrow> []
      | Inr r \<Rightarrow> if content r \<noteq> [] then parse_suggestions (content r) else [])"
  have run: "fst (getSuggestedActions net u a w) = Inr xs"
    by (simp add: a xs_def q_def getSuggestedActions_string)
  have sub: "xs = [] \<or> (\<exists>r. q = Inr r \<and> xs = parse_suggestions (content r))"
    by (auto simp add: xs_def split: sum.splits)
  have len: "length xs \<le> 4"
    using sub parse_suggestions_length by auto
  have el: "s \<noteq> [] \<and> \<not> is_js_space (hd s) \<and> \<not> is_js_space (last s) \<and> \<not> is_heading s"
    if "s \<in> set xs" for s
  proof -
    from that sub have "\<exists>r :: query_result. s \<in> set (parse_suggestions (content r))"
      by auto
    then obtain r :: query_result where "s \<in> set (parse_suggestions (content r))"
      by blast
    then have "s \<noteq> []" "\<not> is_heading s"
      and "\<exists>line \<in> set (split_on newline (content r)). s = js_trim line"
      using parse_suggestions_elem by blast+
    then show ?thesis
      using js_trim_ends by blast
  qed
  have lines: "(\<forall>s\<in>set xs. \<exists>line\<in>set (split_on newline (content r)). s = js_trim line)
      \<and> (content r = [] \<longrightarrow> xs = [])" if "q = Inr r" for r
    using that parse_suggestions_elem [of _ "content r"] by (auto simp add: xs_def)
  have thrown: "xs = []" if "q = Inl e" for e
    using that by (simp add: xs_def)
  from run len el lines thrown a show ?thesis
    unfolding q_def by (intro exI [of _ xs]) auto
qed


lemma query_answering_reply:
  "fst (query (answering suggestions_reply) p fresh_world)
     = Inr \<lparr>content = suggestions_text, session_id = JStr ''s1''\<rparr>"
  by (simp add: query_def query_try_def try_catch_def bind_io_def
      lift_def effect_def return_io_def getOrCreateSession_def isSessionValid_def
      getItem_def truthy_item_def fresh_world_def post_def answering_def get_prop_def
      nullish_def response_text_def suggestions_reply_def opt_prop_def lookup_def
      text_part_def suggestions_text_def newline_def)

lemma query_rejected:
  "fst (query (run_rejecting 500) p fresh_world) = Inl (Error ''Request failed'')"
  by (simp add: query_def query_try_def try_catch_def bind_io_def
      lift_def effect_def return_io_def getOrCreateSession_def isSessionValid_def
      getItem_def truthy_item_def fresh_world_def post_def run_rejecting_def get_prop_def
      nullish_def query_catch_def new_Error_def error_data_message_def or_else_def
      error_status_def opt_prop_def lookup_def)

theorem getSuggestedActions_result_witness:
  "(\<exists>xs. fst (getSuggestedActions (answering suggestions_reply) (JStr ''radar?'')
              (JStr ''It is raining.'') fresh_world) = Inr xs
        \<and> length xs \<le> 4
        \<and> (\<forall>s\<in>set xs. \<exists>line\<in>set (split_on newline suggestions_text). s = js_trim line))
   \<and> fst (getSuggestedActions (run_rejecting 500) (JStr ''radar?'')
              (JStr ''It is raining.'') fresh_world) = Inr []
   \<and> fst (getSuggestedActions (answering suggestions_reply) (JStr ''radar?'') JNull
              fresh_world) = Inr []"
proof -
  have a: "\<exists>xs. fst (getSuggestedActions (answering suggestions_reply) (JStr ''radar?'')
              (JStr ''It is raining.'') fresh_world) = Inr xs
        \<and> length xs \<le> 4
        \<and> (\<forall>s\<in>set xs. \<exists>line\<in>set (split_on newline suggestions_text). s = js_trim line)"
    using getSuggestedActions_result
      [of "answering suggestions_reply" "JStr ''radar?''" "JStr ''It is raining.''" fresh_world]
    by (auto simp add: query_answering_reply)
  have b: "fst (getSuggestedActions (run_rejecting 500) (JStr ''radar?'')
              (JStr ''It is raining.'') fresh_world) = Inr []"
    using getSuggestedActions_result
      [of "run_rejecting 500" "JStr ''radar?''" "JStr ''It is raining.''" fresh_world]
    by (auto simp add: query_rejected)
  have c: "fst (getSuggestedActions (answering suggestions_reply) (JStr ''radar?'') JNull
              fresh_world) = Inr []"
    using getSuggestedActions_result
      [of "answering suggestions_reply" "JStr ''radar?''" JNull fresh_world]
    by auto
  from a b c show ?thesis by blast
qed

section \<open>Properties of the agent operations\<close>

subsection \<open>The body of a request to /run\<close>

lemmas io_defs = try_catch_def bind_io_def lift_def effect_def return_io_def throw_io_def
  post_def Let_def log_error_def

lemma run_body_fields:
  "carries (run_body app sessionId message) ''app_name''"
  "carries (run_body app sessionId message) ''user_id''"
  "carries (run_body app sessionId message) ''session_id'' \<longleftrightarrow> sessionId \<noteq> JUndefined"
  "carries (run_body app sessionId message) ''new_message'' \<longleftrightarrow> message \<noteq> JUndefined"
  by (simp_all add: carries_def run_body_def)

text \<open>
  The operations that create a session post \<open>run_body\<close> to \<open>/run\<close>, which carries
  \<open>app_name\<close> and \<open>user_id\<close>, and \<open>session_id\<close> and \<open>new_message\<close> when they are
  defined.
\<close>

lemma run_shapedI: "body r = run_body app sessionId (user_message parts) \<Longrightarrow> run_shaped r"
  unfolding run_shaped_def by blast

lemma getAlerts_sent:
  "r \<in> set (sent w (getAlerts parse net location w)) \<Longrightarrow> path r = ''/run'' \<Longrightarrow> run_shaped r"
  by (auto simp add: sent_def getAlerts_def create_session_def io_defs
        log_and_throw_def parsed_or_null_def updateSessionTimestamp_def
        split: http_outcome.splits sum.splits parsed.splits if_splits
        intro!: run_shapedI)

lemma getForecast_sent:
  "r \<in> set (sent w (getForecast parse net location w)) \<Longrightarrow> path r = ''/run'' \<Longrightarrow> run_shaped r"
  by (auto simp add: sent_def getForecast_def create_session_def io_defs
        log_and_throw_def parsed_or_null_def updateSessionTimestamp_def
        split: http_outcome.splits sum.splits parsed.splits if_splits
        intro!: run_shapedI)

lemma analyzeRisk_sent:
  "r \<in> set (sent w (analyzeRisk stringify parse net alert w)) \<Longrightarrow> path r = ''/run'' \<Longrightarrow> run_shaped r"
  by (auto simp add: sent_def analyzeRisk_def create_session_def io_defs
        log_and_throw_def parsed_or_null_def updateSessionTimestamp_def
        split: http_outcome.splits sum.splits parsed.splits if_splits
        intro!: run_shapedI)

lemma findResources_sent:
  "r \<in> set (sent w (findResources parse net location resourceType radius w)) \<Longrightarrow> path r = ''/run'' \<Longrightarrow> run_shaped r"
  by (auto simp add: sent_def findResources_def create_session_def io_defs
        log_and_throw_def parsed_or_null_def updateSessionTimestamp_def
        split: http_outcome.splits sum.splits parsed.splits if_splits
        intro!: run_shapedI)

lemma query_sent:
  "r \<in> set (sent w (query net userQuery w)) \<Longrightarrow> path r = ''/run'' \<Longrightarrow> run_shaped r"
  by (auto simp add: sent_def query_def query_try_def query_catch_def
        getOrCreateSession_def clearBrowserState_def store_session_def io_defs
        updateSessionTimestamp_def
        split: http_outcome.splits sum.splits if_splits
        intro!: run_shapedI)

lemma geocode_request:
  "requests (snd (geocode parse net address w))
     = requests w @ [\<lparr>client = EmergencyClient, path = ''/run'', body = geocode_body address\<rparr>]"
  by (auto simp add: geocode_def try_catch_def bind_io_def post_def Let_def effect_def
        return_io_def throw_io_def log_error_def split: http_outcome.splits parsed.splits)

lemma geocode_body_fields:
  "carries (geocode_body address) ''app_name''"
  "carries (geocode_body address) ''user_id''"
  "carries (geocode_body address) ''new_message''"
  "\<not> carries (geocode_body address) ''session_id''"
  by (simp_all add: carries_def geocode_body_def)

text \<open>
  Claim C4 says that every request to \<open>/run\<close> carries \<open>app_name\<close>, \<open>user_id\<close>,
  \<open>session_id\<close> and \<open>new_message\<close>, and names \<open>geocode\<close>. Evaluated for any
  address: \<open>geocode\<close> sends exactly one request, to \<open>/run\<close>, and its body carries
  three of the fields and no \<open>session_id\<close>.
\<close>

theorem geocode_omits_session_id:
  "requests (snd (geocode parse net address w))
     = requests w @ [\<lparr>client = EmergencyClient, path = ''/run'', body = geocode_body address\<rparr>]
   \<and> carries (geocode_body address) ''app_name''
   \<and> carries (geocode_body address) ''user_id''
   \<and> carries (geocode_body address) ''new_message''
   \<and> \<not> carries (geocode_body address) ''session_id''"
  by (simp add: geocode_request geocode_body_fields)

subsection \<open>HTTP failures and failures to parse\<close>

lemma query_http:
  assumes "sess = Rejected e \<or> (\<exists>d. sess = Resolved d \<and> \<not> nullish d)"
  shows "thrown_logged (query (two_step sess (Rejected e)) userQuery w)
       (new_Error e ''Failed to query agent'') ''[API] Error details:''"
  using assms
  by (auto simp add: query_def create_session_def io_defs two_step_def get_prop_def
        log_and_throw_def thrown_logged_def query_try_def query_catch_def getOrCreateSession_def clearBrowserState_def store_session_def)

lemma queryWithImage_http:
  assumes "sess = Rejected e \<or> (\<exists>d. sess = Resolved d \<and> \<not> nullish d)"
    and "data_url imageFile \<noteq> None"
  shows "thrown_logged (queryWithImage (two_step sess (Rejected e)) userQuery imageFile w)
       (new_Error e ''Failed to query agent with image'') ''[API] Error details:''"
  using assms
  by (auto simp add: queryWithImage_def create_session_def io_defs two_step_def get_prop_def
        log_and_throw_def thrown_logged_def queryWithImage_try_def query_catch_def getOrCreateSession_def clearBrowserState_def store_session_def read_base64_def)

lemma getForecast_http:
  assumes "sess = Rejected e \<or> (\<exists>d. sess = Resolved d \<and> \<not> nullish d)"
  shows "thrown_logged (getForecast parse (two_step sess (Rejected e)) location w)
       (e) ''[API] Error getting forecast:''"
  using assms
  by (auto simp add: getForecast_def create_session_def io_defs two_step_def get_prop_def
        log_and_throw_def thrown_logged_def )

lemma getAlerts_http:
  assumes "sess = Rejected e \<or> (\<exists>d. sess = Resolved d \<and> \<not> nullish d)"
  shows "thrown_logged (getAlerts parse (two_step sess (Rejected e)) location w)
       (new_Error e ''Failed to get alerts'') ''[API] Error getting alerts:''"
  using assms
  by (auto simp add: getAlerts_def create_session_def io_defs two_step_def get_prop_def
        log_and_throw_def thrown_logged_def )

lemma getEvacuationRoute_http:
  assumes "sess = Rejected e \<or> (\<exists>d. sess = Resolved d \<and> \<not> nullish d)"
  shows "thrown_logged (getEvacuationRoute parse (two_step sess (Rejected e)) origin destination w)
       (new_Error e ''Failed to get evacuation route'') ''[API] Error getting evacuation route:''"
  using assms
  by (auto simp add: getEvacuationRoute_def create_session_def io_defs two_step_def get_prop_def
        log_and_throw_def thrown_logged_def )

lemma analyzeRisk_http:
  assumes "sess = Rejected e \<or> (\<exists>d. sess = Resolved d \<and> \<not> nullish d)"
    and "\<not> nullish alert"
  shows "thrown_logged (analyzeRisk stringify parse (two_step sess (Rejected e)) alert w)
       (new_Error e ''Failed to analyze risk'') ''[API] Error analyzing risk:''"
  using assms
  by (auto simp add: analyzeRisk_def create_session_def io_defs two_step_def get_prop_def
        log_and_throw_def thrown_logged_def )

lemma findResources_http:
  assumes "sess = Rejected e \<or> (\<exists>d. sess = Resolved d \<and> \<not> nullish d)"
  shows "thrown_logged (findResources parse (two_step sess (Rejected e)) location resourceType radius w)
       (new_Error e (''Failed to find '' @ resourceType)) (''[API] Error finding '' @ resourceType @ '':'')"
  using assms
  by (auto simp add: findResources_def create_session_def io_defs two_step_def get_prop_def
        log_and_throw_def thrown_logged_def )

lemma analyzeHurricaneImage_http:
  assumes "sess = Rejected e \<or> (\<exists>d. sess = Resolved d \<and> \<not> nullish d)"
    and "data_url imageFile \<noteq> None"
  shows "thrown_logged (analyzeHurricaneImage parse (two_step sess (Rejected e)) imageFile w)
       (new_Error e ''Failed to analyze hurricane image'') ''[API] Error analyzing hurricane image:''"
  using assms
  by (auto simp add: analyzeHurricaneImage_def create_session_def io_defs two_step_def get_prop_def
        log_and_throw_def thrown_logged_def read_base64_def)

lemma getMapForZones_http:
  assumes "sess = Rejected e \<or> (\<exists>d. sess = Resolved d \<and> \<not> nullish d)"
  shows "thrown_logged (getMapForZones parse (two_step sess (Rejected e)) zones w)
       (new_Error e ''Failed to get map data'') ''[API] Error getting map for zones:''"
  using assms
  by (auto simp add: getMapForZones_def create_session_def io_defs two_step_def get_prop_def
        log_and_throw_def thrown_logged_def )

lemma geocode_http:
  assumes "sess = Rejected e \<or> (\<exists>d. sess = Resolved d \<and> \<not> nullish d)"
  shows "returned_logged (geocode parse (two_step sess (Rejected e)) address w)
       (JNull) ''[API] Error geocoding address:''"
  using assms
  by (auto simp add: geocode_def create_session_def io_defs two_step_def get_prop_def
        log_and_throw_def returned_logged_def )

lemma getHistoricalData_http:
  assumes "sess = Rejected e \<or> (\<exists>d. sess = Resolved d \<and> \<not> nullish d)"
  shows "thrown_logged (getHistoricalData (two_step sess (Rejected e)) location eventType w)
       (new_Error e ''Failed to query agent'') ''[API] Error details:''"
  unfolding getHistoricalData_def using assms by (rule query_http)

lemma getVulnerablePopulations_http:
  assumes "sess = Rejected e \<or> (\<exists>d. sess = Resolved d \<and> \<not> nullish d)"
  shows "thrown_logged (getVulnerablePopulations (two_step sess (Rejected e)) location w)
       (new_Error e ''Failed to query agent'') ''[API] Error details:''"
  unfolding getVulnerablePopulations_def using assms by (rule query_http)

lemma getSevereWeatherEvents_http:
  assumes "sess = Rejected e \<or> (\<exists>d. sess = Resolved d \<and> \<not> nullish d)"
  shows "thrown_logged (getSevereWeatherEvents (two_step sess (Rejected e)) w)
       (new_Error e ''Failed to query agent'') ''[API] Error fetching severe weather events:''"
  using query_http [OF assms, of "''What are the current active hurricanes or tropical storms?''" w]
  by (auto simp add: getSevereWeatherEvents_def io_defs thrown_logged_def split: prod.splits)

lemma getSuggestedActions_http:
  assumes "sess = Rejected e \<or> (\<exists>d. sess = Resolved d \<and> \<not> nullish d)"
  shows "returned_logged (getSuggestedActions (two_step sess (Rejected e)) lastUserQuery (JStr resp) w)
       [] ''[API] Error getting suggested actions:''"
  using query_http [OF assms, of "suggestion_prompt (js_to_string lastUserQuery) (take 500 resp)" w]
  by (auto simp add: getSuggestedActions_def io_defs thrown_logged_def returned_logged_def
        js_substring0_def split: prod.splits)

lemma parse_failed_text: "parse_final parse d = ParseFailed t \<Longrightarrow> final_text d = Some t"
  by (auto simp add: parse_final_def split: option.splits if_splits)

lemma getForecast_parse:
  assumes "\<not> nullish sd" and "parse_final parse d = ParseFailed t"
  shows "returned_logged (getForecast parse (two_step (Resolved sd) (Resolved d)) location w)
       (JObj [(''content'', t), (''session_id'', js_prop sd ''id'')]) ''[API] Failed to parse forecast JSON:''"
  using assms parse_failed_text [OF assms(2)]
  by (auto simp add: getForecast_def create_session_def io_defs two_step_def get_prop_def
        parsed_or_null_def returned_logged_def or_else_def opt_prop_def nullish_def
        updateSessionTimestamp_def )

lemma getAlerts_parse:
  assumes "\<not> nullish sd" and "parse_final parse d = ParseFailed t"
  shows "returned_logged (getAlerts parse (two_step (Resolved sd) (Resolved d)) location w)
       (JNull) ''[API] Failed to parse alerts JSON:''"
  using assms parse_failed_text [OF assms(2)]
  by (auto simp add: getAlerts_def create_session_def io_defs two_step_def get_prop_def
        parsed_or_null_def returned_logged_def or_else_def opt_prop_def nullish_def
        updateSessionTimestamp_def )

lemma getEvacuationRoute_parse:
  assumes "\<not> nullish sd" and "parse_final parse d = ParseFailed t"
  shows "returned_logged (getEvacuationRoute parse (two_step (Resolved sd) (Resolved d)) origin destination w)
       (JObj [(''content'', JStr []), (''evacuation_routes'', JArr []), (''session_id'', js_prop sd ''id'')]) ''[API] Failed to parse resources JSON:''"
  using assms parse_failed_text [OF assms(2)]
  by (auto simp add: getEvacuationRoute_def create_session_def io_defs two_step_def get_prop_def
        parsed_or_null_def returned_logged_def or_else_def opt_prop_def nullish_def
        updateSessionTimestamp_def )

lemma analyzeRisk_parse:
  assumes "\<not> nullish sd" and "parse_final parse d = ParseFailed t"
    and "\<not> nullish alert"
  shows "returned_logged (analyzeRisk stringify parse (two_step (Resolved sd) (Resolved d)) alert w)
       (JNull) ''[API] Failed to parse risk JSON:''"
  using assms parse_failed_text [OF assms(2)]
  by (auto simp add: analyzeRisk_def create_session_def io_defs two_step_def get_prop_def
        parsed_or_null_def returned_logged_def or_else_def opt_prop_def nullish_def
        updateSessionTimestamp_def )

lemma findResources_parse:
  assumes "\<not> nullish sd" and "parse_final parse d = ParseFailed t"
  shows "returned_logged (findResources parse (two_step (Resolved sd) (Resolved d)) location resourceType radius w)
       (JNull) ''[API] Failed to parse resources JSON:''"
  using assms parse_failed_text [OF assms(2)]
  by (auto simp add: findResources_def create_session_def io_defs two_step_def get_prop_def
        parsed_or_null_def returned_logged_def or_else_def opt_prop_def nullish_def
        updateSessionTimestamp_def )

lemma geocode_parse:
  assumes "\<not> nullish sd" and "parse_final parse d = ParseFailed t"
  shows "returned_logged (geocode parse (two_step (Resolved sd) (Resolved d)) address w)
       (JNull) ''[API] Error geocoding address:''"
  using assms parse_failed_text [OF assms(2)]
  by (auto simp add: geocode_def create_session_def io_defs two_step_def get_prop_def
        parsed_or_null_def returned_logged_def or_else_def opt_prop_def nullish_def
        updateSessionTimestamp_def )

lemma analyzeHurricaneImage_parse:
  assumes "\<not> nullish sd" and "parse_final parse d = ParseFailed t"
    and "data_url imageFile \<noteq> None"
  shows "returned_logged (analyzeHurricaneImage parse (two_step (Resolved sd) (Resolved d)) imageFile w)
       (JObj [(''raw_response'', t)]) ''[API] Failed to parse evacuation plan JSON:''"
  using assms parse_failed_text [OF assms(2)]
  by (auto simp add: analyzeHurricaneImage_def create_session_def io_defs two_step_def get_prop_def
        parsed_or_null_def returned_logged_def or_else_def opt_prop_def nullish_def
        updateSessionTimestamp_def read_base64_def)

lemma getMapForZones_parse:
  assumes "\<not> nullish sd" and "parse_final parse d = ParseFailed t"
  shows "returned_logged (getMapForZones parse (two_step (Resolved sd) (Resolved d)) zones w)
       (JNull) ''[API] Failed to parse map data JSON:''"
  using assms parse_failed_text [OF assms(2)]
  by (auto simp add: getMapForZones_def create_session_def io_defs two_step_def get_prop_def
        parsed_or_null_def returned_logged_def or_else_def opt_prop_def nullish_def
        updateSessionTimestamp_def )


lemmas eval_defs2 = io_defs create_session_def get_prop_def nullish_def parse_final_def
  final_text_def opt_prop_def lookup_def text_part_def parse_word_def answering_def
  run_rejecting_def fresh_world_def unparsable_reply_def parsed_or_null_def

text \<open>
  Claim C5, as stated: no operation swallows an HTTP failure or a failure to parse and
  returns a normal (null) result. \<open>findResources\<close> and \<open>getAlerts\<close> return \<open>null\<close>
  when the final text of the reply is not JSON; \<open>geocode\<close> returns \<open>null\<close> when
  \<open>/run\<close> is rejected.
\<close>

theorem swallowed_failures_counterexample:
  "fst (findResources parse_word (answering unparsable_reply) ''Miami'' ''shelters'' None
          fresh_world) = Inr JNull
   \<and> fst (getAlerts parse_word (answering unparsable_reply) ''Miami'' fresh_world) = Inr JNull
   \<and> fst (geocode parse_word (run_rejecting 500) ''Miami'' fresh_world) = Inr JNull"
  by (simp add: findResources_def getAlerts_def geocode_def eval_defs2)

text \<open>
  Claim C5, amended. Let \<open>/run\<close> be rejected with an error \<open>e\<close>, the creation of a
  session being rejected with \<open>e\<close> too or answered by a body that is not \<open>null\<close>.
  Every operation logs the failure with \<open>console.error\<close>. \<open>getForecast\<close> rethrows
  \<open>e\<close>; \<open>geocode\<close> returns \<open>null\<close> and \<open>getSuggestedActions\<close> returns the empty
  array; every other operation throws an \<open>Error\<close> whose message is that of the
  response, else that of \<open>e\<close>, else the operation's own text. Let instead both
  requests be answered and the final text of the reply fail to parse: every operation
  that parses logs the failure and returns; \<open>getAlerts\<close>, \<open>analyzeRisk\<close>,
  \<open>findResources\<close>, \<open>getMapForZones\<close> and \<open>geocode\<close> return \<open>null\<close>,
  \<open>getForecast\<close> returns the text as content, \<open>getEvacuationRoute\<close> an empty
  content and no routes, \<open>analyzeHurricaneImage\<close> the text as \<open>raw_response\<close>.
  (The alert given to \<open>analyzeRisk\<close> is not \<open>null\<close>, the image file can be read.)
\<close>

theorem failures_logged:
  assumes "sess = Rejected e \<or> (\<exists>d. sess = Resolved d \<and> \<not> nullish d)"
    and "\<not> nullish sd" and "parse_final parse d = ParseFailed t"
    and "\<not> nullish alert" and "data_url imageFile \<noteq> None"
  shows
   "thrown_logged (query (two_step sess (Rejected e)) userQuery w)
       (new_Error e ''Failed to query agent'') ''[API] Error details:''
    \<and> thrown_logged (queryWithImage (two_step sess (Rejected e)) userQuery imageFile w)
       (new_Error e ''Failed to query agent with image'') ''[API] Error details:''
    \<and> thrown_logged (getHistoricalData (two_step sess (Rejected e)) location eventType w)
       (new_Error e ''Failed to query agent'') ''[API] Error details:''
    \<and> thrown_logged (getVulnerablePopulations (two_step sess (Rejected e)) location w)
       (new_Error e ''Failed to query agent'') ''[API] Error details:''
    \<and> thrown_logged (getSevereWeatherEvents (two_step sess (Rejected e)) w)
       (new_Error e ''Failed to query agent'') ''[API] Error fetching severe weather events:''
    \<and> thrown_logged (getForecast parse (two_step sess (Rejected e)) location w) e ''[API] Error getting forecast:''
    \<and> thrown_logged (getAlerts parse (two_step sess (Rejected e)) location w)
       (new_Error e ''Failed to get alerts'') ''[API] Error getting alerts:''
    \<and> thrown_logged (getEvacuationRoute parse (two_step sess (Rejected e)) origin destination w)
       (new_Error e ''Failed to get evacuation route'') ''[API] Error getting evacuation route:''
    \<and> thrown_logged (analyzeRisk stringify parse (two_step sess (Rejected e)) alert w)
       (new_Error e ''Failed to analyze risk'') ''[API] Error analyzing risk:''
    \<and> thrown_logged (findResources parse (two_step sess (Rejected e)) location resourceType radius w)
       (new_Error e (''Failed to find '' @ resourceType))
       (''[API] Error finding '' @ resourceType @ '':'')
    \<and> thrown_logged (analyzeHurricaneImage parse (two_step sess (Rejected e)) imageFile w)
       (new_Error e ''Failed to analyze hurricane image'')
       ''[API] Error analyzing hurricane image:''
    \<and> thrown_logged (getMapForZones parse (two_step sess (Rejected e)) zones w)
       (new_Error e ''Failed to get map data'') ''[API] Error getting map for zones:''
    \<and> returned_logged (geocode parse (two_step sess (Rejected e)) address w) JNull ''[API] Error geocoding address:''
    \<and> returned_logged (getSuggestedActions (two_step sess (Rejected e)) lastUserQuery (JStr resp) w) []
       ''[API] Error getting suggested actions:''
    \<and> returned_logged (getForecast parse (two_step (Resolved sd) (Resolved d)) location w)
       (JObj [(''content'', t), (''session_id'', js_prop sd ''id'')])
       ''[API] Failed to parse forecast JSON:''
    \<and> returned_logged (getAlerts parse (two_step (Resolved sd) (Resolved d)) location w) JNull
       ''[API] Failed to parse alerts JSON:''
    \<and> returned_logged (getEvacuationRoute parse (two_step (Resolved sd) (Resolved d)) origin destination w)
       (JObj [(''content'', JStr []), (''evacuation_routes'', JArr []),
              (''session_id'', js_prop sd ''id'')])
       ''[API] Failed to parse resources JSON:''
    \<and> returned_logged (analyzeRisk stringify parse (two_step (Resolved sd) (Resolved d)) alert w) JNull
       ''[API] Failed to parse risk JSON:''
    \<and> returned_logged (findResources parse (two_step (Resolved sd) (Resolved d)) location resourceType radius w) JNull
       ''[API] Failed to parse resources JSON:''
    \<and> returned_logged (analyzeHurricaneImage parse (two_step (Resolved sd) (Resolved d)) imageFile w)
       (JObj [(''raw_response'', t)]) ''[API] Failed to parse evacuation plan JSON:''
    \<and> returned_logged (getMapForZones parse (two_step (Resolved sd) (Resolved d)) zones w) JNull
       ''[API] Failed to parse map data JSON:''
    \<and> returned_logged (geocode parse (two_step (Resolved sd) (Resolved d)) address w) JNull ''[API] Error geocoding address:''"
  using assms
  by (intro conjI query_http queryWithImage_http getHistoricalData_http
      getVulnerablePopulations_http getSevereWeatherEvents_http getForecast_http getAlerts_http
      getEvacuationRoute_http analyzeRisk_http findResources_http analyzeHurricaneImage_http
      getMapForZones_http geocode_http getSuggestedActions_http getForecast_parse getAlerts_parse
      getEvacuationRoute_parse analyzeRisk_parse findResources_parse
      analyzeHurricaneImage_parse getMapForZones_parse geocode_parse)

theorem failures_logged_witness:
  "thrown_logged (getAlerts parse_word
        (two_step (Resolved (JObj [(''id'', JStr ''s1'')])) (Rejected server_error))
        ''Miami'' fresh_world)
     (Error ''Request failed'') ''[API] Error getting alerts:''
   \<and> returned_logged (geocode parse_word
        (two_step (Resolved (JObj [(''id'', JStr ''s1'')])) (Rejected server_error))
        ''Miami'' fresh_world) JNull ''[API] Error geocoding address:''
   \<and> returned_logged (findResources parse_word
        (two_step (Resolved (JObj [(''id'', JStr ''s1'')])) (Resolved unparsable_reply))
        ''Miami'' ''shelters'' None fresh_world) JNull ''[API] Failed to parse resources JSON:''"
proof -
  have p: "parse_final parse_word unparsable_reply = ParseFailed (JStr ''sunny'')"
    by (simp add: eval_defs2)
  have n: "\<not> nullish (JObj [(''id'', JStr ''s1'')])" "\<not> nullish (JObj [(''event'', JStr ''Flood'')])"
    by (simp_all add: nullish_def)
  have s: "Resolved (JObj [(''id'', JStr ''s1'')]) = Rejected server_error
      \<or> (\<exists>d. Resolved (JObj [(''id'', JStr ''s1'')]) = Resolved d \<and> \<not> nullish d)"
    by (simp add: nullish_def)
  have i: "data_url png \<noteq> None"
    by (simp add: png_def)
  have m: "new_Error server_error ''Failed to get alerts'' = Error ''Request failed''"
    by (simp add: new_Error_def server_error_def error_data_message_def or_else_def
        opt_prop_def lookup_def nullish_def)
  from failures_logged [OF s n(1) p n(2) i, where w = fresh_world and location = "''Miami''"
      and address = "''Miami''" and resourceType = "''shelters''" and radius = None]
  show ?thesis
    by (simp add: m)
qed

end
